theory Spec2Isabelle
  imports Main
begin

section \<open>JavaScript values\<close>

text \<open>
  The handlers of this repository work on values produced by \<^verbatim>\<open>JSON.parse\<close> and on
  \<^verbatim>\<open>undefined\<close>. A number is a double with an integral value, given by that value, one of
  the two infinities, or \<^verbatim>\<open>NaN\<close>; numbers with a fractional part are not represented. A
  string is the list of its code units (units above 255 are not represented). An object is
  the list of its members in source order; on a repeated key the last member wins, as in
  \<^verbatim>\<open>JSON.parse\<close>.
\<close>

datatype jsval =
    JUndef
  | JNull
  | JBool bool
  | JNum int
  | JPosInf
  | JNegInf
  | JNaN
  | JStr string
  | JArr "jsval list"
  | JObj "(string \<times> jsval) list"

text \<open>An exception carries the kind of the error and its \<^verbatim>\<open>message\<close>.\<close>

datatype exn = TypeError string | SyntaxError string | URIError string | Error string

fun exn_message :: "exn \<Rightarrow> string" where
  "exn_message (TypeError m) = m"
| "exn_message (SyntaxError m) = m"
| "exn_message (URIError m) = m"
| "exn_message (Error m) = m"

text \<open>Sequencing of computations that may throw: \<open>Inl\<close> is the thrown exception.\<close>

definition ex_bind :: "exn + 'a \<Rightarrow> ('a \<Rightarrow> exn + 'b) \<Rightarrow> exn + 'b" where
  "ex_bind m f = (case m of Inl e \<Rightarrow> Inl e | Inr x \<Rightarrow> f x)"

fun ex_map :: "('a \<Rightarrow> exn + 'b) \<Rightarrow> 'a list \<Rightarrow> exn + 'b list" where
  "ex_map f [] = Inr []"
| "ex_map f (x # xs) = ex_bind (f x) (\<lambda>y. ex_bind (ex_map f xs) (\<lambda>ys. Inr (y # ys)))"

text \<open>Truthiness, as used by \<^verbatim>\<open>!x\<close>, \<^verbatim>\<open>x || y\<close> and \<^verbatim>\<open>x ? a : b\<close>.\<close>

fun truthy :: "jsval \<Rightarrow> bool" where
  "truthy JUndef = False"
| "truthy JNull = False"
| "truthy (JBool b) = b"
| "truthy (JNum n) = (n \<noteq> 0)"
| "truthy JPosInf = True"
| "truthy JNegInf = True"
| "truthy JNaN = False"
| "truthy (JStr s) = (s \<noteq> [])"
| "truthy (JArr xs) = True"
| "truthy (JObj kvs) = True"

definition js_or :: "jsval \<Rightarrow> jsval \<Rightarrow> jsval" where
  "js_or a b = (if truthy a then a else b)"

text \<open>
  Property read \<^verbatim>\<open>v.k\<close> for the member names the handlers use. Reading a property of
  \<^verbatim>\<open>null\<close> or \<^verbatim>\<open>undefined\<close> throws a TypeError (with the message that Node prints); arrays
  and strings have a \<^verbatim>\<open>length\<close>; every other read of a missing member is \<^verbatim>\<open>undefined\<close>.
\<close>

definition cannot_read :: "string \<Rightarrow> string \<Rightarrow> exn" where
  "cannot_read what k =
     TypeError (''Cannot read properties of '' @ what @ '' (reading '' @ [CHR 39] @ k @ [CHR 39] @ '')'')"

fun js_get :: "jsval \<Rightarrow> string \<Rightarrow> exn + jsval" where
  "js_get JUndef k = Inl (cannot_read ''undefined'' k)"
| "js_get JNull k = Inl (cannot_read ''null'' k)"
| "js_get (JObj kvs) k = (case map_of (rev kvs) k of Some v \<Rightarrow> Inr v | None \<Rightarrow> Inr JUndef)"
| "js_get (JArr xs) k = (if k = ''length'' then Inr (JNum (int (length xs))) else Inr JUndef)"
| "js_get (JStr s) k = (if k = ''length'' then Inr (JNum (int (length s))) else Inr JUndef)"
| "js_get v k = Inr JUndef"

text \<open>The element read \<^verbatim>\<open>v[0]\<close>.\<close>

fun js_first :: "jsval \<Rightarrow> exn + jsval" where
  "js_first JUndef = Inl (cannot_read ''undefined'' ''0'')"
| "js_first JNull = Inl (cannot_read ''null'' ''0'')"
| "js_first (JArr xs) = (case xs of [] \<Rightarrow> Inr JUndef | x # _ \<Rightarrow> Inr x)"
| "js_first (JStr s) = (case s of [] \<Rightarrow> Inr JUndef | c # _ \<Rightarrow> Inr (JStr [c]))"
| "js_first (JObj kvs) = (case map_of (rev kvs) ''0'' of Some v \<Rightarrow> Inr v | None \<Rightarrow> Inr JUndef)"
| "js_first v = Inr JUndef"

text \<open>\<^verbatim>\<open>v?.k\<close>: \<^verbatim>\<open>undefined\<close> when \<open>v\<close> is \<^verbatim>\<open>null\<close> or \<^verbatim>\<open>undefined\<close>.\<close>

definition js_get_opt :: "jsval \<Rightarrow> string \<Rightarrow> exn + jsval" where
  "js_get_opt v k = (if v = JNull \<or> v = JUndef then Inr JUndef else js_get v k)"

text \<open>
  \<^verbatim>\<open>xs.map(f)\<close>, \<^verbatim>\<open>xs.filter(f)\<close> and \<^verbatim>\<open>xs.reduce(f, 0)\<close> exist on arrays only; the value
  returned here is the list the method runs over.
\<close>

definition js_array :: "string \<Rightarrow> jsval \<Rightarrow> exn + jsval list" where
  "js_array what v =
     (case v of
        JArr xs \<Rightarrow> Inr xs
      | JUndef \<Rightarrow> Inl (cannot_read ''undefined'' what)
      | JNull \<Rightarrow> Inl (cannot_read ''null'' what)
      | _ \<Rightarrow> Inl (TypeError (what @ '' is not a function'')))"

subsection \<open>Texts\<close>

fun show_nat :: "nat \<Rightarrow> string" where
  "show_nat n =
     (if n < 10 then [''0123456789'' ! n]
      else show_nat (n div 10) @ [''0123456789'' ! (n mod 10)])"

declare show_nat.simps [simp del]

definition show_int :: "int \<Rightarrow> string" where
  "show_int i = (if i < 0 then CHR ''-'' # show_nat (nat (- i)) else show_nat (nat i))"

fun join_with :: "string \<Rightarrow> string list \<Rightarrow> string" where
  "join_with sep [] = []"
| "join_with sep [x] = x"
| "join_with sep (x # y # ys) = x @ sep @ join_with sep (y # ys)"

text \<open>\<^verbatim>\<open>s.split(' ')\<close> on a string.\<close>

fun split_on :: "char \<Rightarrow> string \<Rightarrow> string list" where
  "split_on c [] = [] # []"
| "split_on c (x # xs) =
     (if x = c then [] # split_on c xs
      else (case split_on c xs of [] \<Rightarrow> [x] # [] | y # ys \<Rightarrow> (x # y) # ys))"

section \<open>The outside world\<close>

text \<open>
  An outbound HTTP request is its method, its URL and the value handed over as its body
  (\<open>JUndef\<close> when the call has none). Headers carry only the API key and the content type and
  are left out. A response is its status code and what reading its body gives.
\<close>

datatype request = Request (rq_method: string) (rq_url: string) (rq_data: jsval)

datatype response = Response (status: nat) (resp_text: "exn + string") (resp_json: "exn + jsval")

definition resp_ok :: "response \<Rightarrow> bool" where
  "resp_ok r = (200 \<le> status r \<and> status r \<le> 299)"

text \<open>
  Every call that leaves the process is recorded, with its argument and its result, in a
  trace. The blob store of the polling job is part of the world: it keeps strings under
  keys that are texts.
\<close>

datatype event =
    Fetch request "exn + response"
  | BlobGet jsval "exn + string option"
  | BlobSet jsval string "exn + unit"

record world =
  blobs :: "string \<Rightarrow> string option"
  trace :: "event list"

text \<open>
  What the program does not own is a parameter: the environment variables; the runtime's
  \<^verbatim>\<open>JSON.parse\<close>, \<^verbatim>\<open>Date.parse\<close>, \<^verbatim>\<open>encodeURIComponent\<close> (which throws a URIError on a
  lone surrogate) and clock; the text the runtime prints for a number beyond the safe
  integers; the answer of the network to a request (which may depend on everything that
  happened before); and the exception, if any, with which an access to the blob store
  fails.
\<close>

record env =
  getenv :: "string \<Rightarrow> string option"
  json_parse :: "string \<Rightarrow> exn + jsval"
  date_parse :: "string \<Rightarrow> int option"
  encodeURIComponent :: "string \<Rightarrow> exn + string"
  number_text :: "int \<Rightarrow> string"
  now_ms :: int
  now_iso :: string
  net :: "event list \<Rightarrow> request \<Rightarrow> exn + response"
  blob_error :: "event list \<Rightarrow> exn option"

subsection \<open>Conversion to strings\<close>

text \<open>
  \<^verbatim>\<open>String(v)\<close>, which template literals apply. An integer below 2^53 in absolute value is
  printed in decimal. An array is the comma-joined list of the texts of its elements, with
  \<^verbatim>\<open>null\<close> and \<^verbatim>\<open>undefined\<close> printed as the empty string. An object parsed from JSON has
  no function among its members: when it has a member \<^verbatim>\<open>toString\<close> of its own, the
  conversion finds neither a \<^verbatim>\<open>toString\<close> nor a \<^verbatim>\<open>valueOf\<close> that gives a primitive and
  throws a TypeError; otherwise it is printed by \<^verbatim>\<open>Object.prototype.toString\<close>.
\<close>

definition number_string :: "env \<Rightarrow> int \<Rightarrow> string" where
  "number_string env n =
     (if \<bar>n\<bar> < 9007199254740992 then show_int n else number_text env n)"

definition not_primitive :: exn where
  "not_primitive = TypeError ''Cannot convert object to primitive value''"

fun js_to_string :: "env \<Rightarrow> jsval \<Rightarrow> exn + string"
  and js_elements :: "env \<Rightarrow> jsval list \<Rightarrow> exn + string list" where
  "js_to_string env JUndef = Inr ''undefined''"
| "js_to_string env JNull = Inr ''null''"
| "js_to_string env (JBool b) = Inr (if b then ''true'' else ''false'')"
| "js_to_string env (JNum n) = Inr (number_string env n)"
| "js_to_string env JPosInf = Inr ''Infinity''"
| "js_to_string env JNegInf = Inr ''-Infinity''"
| "js_to_string env JNaN = Inr ''NaN''"
| "js_to_string env (JStr s) = Inr s"
| "js_to_string env (JArr xs) =
     (case js_elements env xs of
        Inl e \<Rightarrow> Inl e
      | Inr parts \<Rightarrow> Inr (join_with '','' parts))"
| "js_to_string env (JObj kvs) =
     (if map_of kvs ''toString'' \<noteq> None then Inl not_primitive
      else Inr ''[object Object]'')"
| "js_elements env [] = Inr []"
| "js_elements env (x # xs) =
     (case (if x = JNull \<or> x = JUndef then Inr [] else js_to_string env x) of
        Inl e \<Rightarrow> Inl e
      | Inr part \<Rightarrow>
          (case js_elements env xs of
             Inl e \<Rightarrow> Inl e
           | Inr parts \<Rightarrow> Inr (part # parts)))"

text \<open>The texts that a template literal inserts, converted from left to right.\<close>

definition template :: "env \<Rightarrow> jsval list \<Rightarrow> exn + string list" where
  "template env vs = ex_map (js_to_string env) vs"

text \<open>
  The conversion of an operand of \<^verbatim>\<open>+\<close> or of the argument of \<^verbatim>\<open>new Date\<close> to a
  primitive: an array or an object becomes its text, under the same condition.
\<close>

definition to_primitive :: "env \<Rightarrow> jsval \<Rightarrow> exn + jsval" where
  "to_primitive env v =
     (case v of
        JArr xs \<Rightarrow> ex_bind (js_to_string env v) (\<lambda>s. Inr (JStr s))
      | JObj kvs \<Rightarrow> ex_bind (js_to_string env v) (\<lambda>s. Inr (JStr s))
      | _ \<Rightarrow> Inr v)"

subsection \<open>Numbers\<close>

text \<open>
  \<^verbatim>\<open>Number(v)\<close> of a primitive that is not a string. The sum of two doubles is the double
  nearest to the exact sum (a tie goes to the even significand of 53 bits), and an infinity
  from 2^1024 on.
\<close>

fun to_number :: "jsval \<Rightarrow> jsval" where
  "to_number JNull = JNum 0"
| "to_number (JBool b) = JNum (if b then 1 else 0)"
| "to_number (JNum n) = JNum n"
| "to_number JPosInf = JPosInf"
| "to_number JNegInf = JNegInf"
| "to_number v = JNaN"

fun bit_length :: "nat \<Rightarrow> nat" where
  "bit_length n = (if n = 0 then 0 else Suc (bit_length (n div 2)))"

declare bit_length.simps [simp del]

definition round_nat :: "nat \<Rightarrow> nat" where
  "round_nat n =
     (if n < 9007199254740992 then n
      else
        (let s = bit_length n - 53;
             q = n div 2 ^ s;
             r = n mod 2 ^ s;
             h = 2 ^ (s - 1)
         in (if r > h \<or> (r = h \<and> odd q) then q + 1 else q) * 2 ^ s))"

definition to_double :: "int \<Rightarrow> jsval" where
  "to_double i =
     (let m = round_nat (nat \<bar>i\<bar>)
      in if m \<ge> 2 ^ 1024 then (if i < 0 then JNegInf else JPosInf)
         else JNum (if i < 0 then - int m else int m))"

fun add_numbers :: "jsval \<Rightarrow> jsval \<Rightarrow> jsval" where
  "add_numbers (JNum a) (JNum b) = to_double (a + b)"
| "add_numbers (JNum a) JPosInf = JPosInf"
| "add_numbers (JNum a) JNegInf = JNegInf"
| "add_numbers JPosInf (JNum b) = JPosInf"
| "add_numbers JPosInf JPosInf = JPosInf"
| "add_numbers JNegInf (JNum b) = JNegInf"
| "add_numbers JNegInf JNegInf = JNegInf"
| "add_numbers a b = JNaN"

text \<open>
  The operator \<^verbatim>\<open>a + b\<close>: both operands are converted to primitives, the left one first;
  it is string concatenation as soon as one of them is a string, numeric addition otherwise.
\<close>

fun is_string :: "jsval \<Rightarrow> bool" where
  "is_string (JStr s) = True"
| "is_string v = False"

definition js_plus :: "env \<Rightarrow> jsval \<Rightarrow> jsval \<Rightarrow> exn + jsval" where
  "js_plus env a b =
     ex_bind (to_primitive env a) (\<lambda>pa.
     ex_bind (to_primitive env b) (\<lambda>pb.
     if is_string pa \<or> is_string pb then
       ex_bind (js_to_string env pa) (\<lambda>sa.
       ex_bind (js_to_string env pb) (\<lambda>sb. Inr (JStr (sa @ sb))))
     else Inr (add_numbers (to_number pa) (to_number pb))))"

text \<open>
  \<^verbatim>\<open>new Date(v).getTime()\<close>; \<open>None\<close> is \<^verbatim>\<open>NaN\<close>. The argument is converted to a
  primitive; a string goes through \<^verbatim>\<open>Date.parse\<close>, anything else is a count of
  milliseconds, valid up to 8.64e15 in absolute value.
\<close>

definition js_date :: "env \<Rightarrow> jsval \<Rightarrow> exn + int option" where
  "js_date env v =
     ex_bind (to_primitive env v) (\<lambda>p.
     case p of
       JStr s \<Rightarrow> Inr (date_parse env s)
     | _ \<Rightarrow>
        (case to_number p of
           JNum n \<Rightarrow> Inr (if \<bar>n\<bar> \<le> 8640000000000000 then Some n else None)
         | _ \<Rightarrow> Inr None))"

subsection \<open>Computations that change the world and may throw\<close>

type_synonym 'a io = "world \<Rightarrow> (exn + 'a) \<times> world"

definition io_ret :: "'a \<Rightarrow> 'a io" where
  "io_ret x w = (Inr x, w)"

definition io_throw :: "exn \<Rightarrow> 'a io" where
  "io_throw e w = (Inl e, w)"

definition io_lift :: "exn + 'a \<Rightarrow> 'a io" where
  "io_lift r w = (r, w)"

definition io_bind :: "'a io \<Rightarrow> ('a \<Rightarrow> 'b io) \<Rightarrow> 'b io" where
  "io_bind m f w = (case m w of (Inl e, w') \<Rightarrow> (Inl e, w') | (Inr x, w') \<Rightarrow> f x w')"

text \<open>A \<^verbatim>\<open>try\<close> whose \<^verbatim>\<open>catch\<close> only logs.\<close>

definition io_swallow :: "'a io \<Rightarrow> unit io" where
  "io_swallow m w = (case m w of (r, w') \<Rightarrow> (Inr (), w'))"

definition fetch :: "env \<Rightarrow> request \<Rightarrow> response io" where
  "fetch env rq w =
     (let r = net env (trace w) rq in (r, w\<lparr>trace := trace w @ [Fetch rq r]\<rparr>))"

text \<open>An environment variable as a value: \<^verbatim>\<open>undefined\<close> when it is not set.\<close>

definition env_val :: "env \<Rightarrow> string \<Rightarrow> jsval" where
  "env_val env k = (case getenv env k of None \<Rightarrow> JUndef | Some s \<Rightarrow> JStr s)"

section \<open>The webhook handlers\<close>

text \<open>
  A handler receives the HTTP method and the body text of the request and returns a status
  code and a body. The model keeps the object that the handler serialises with
  \<^verbatim>\<open>JSON.stringify\<close> as the body.
\<close>

record webevent =
  httpMethod :: string
  body :: string

datatype reply = Reply (statusCode: nat) (reply_body: jsval)

definition method_not_allowed :: reply where
  "method_not_allowed = Reply 405 (JObj [(''error'', JStr ''Method not allowed'')])"

definition not_handled :: reply where
  "not_handled = Reply 200 (JObj [(''message'', JStr ''Event type not handled'')])"

definition failed_webhook :: "exn \<Rightarrow> reply" where
  "failed_webhook e =
     Reply 500 (JObj [(''error'', JStr ''Failed to process webhook''),
                      (''message'', JStr (exn_message e))])"

subsection \<open>Variant 1: one transactional email per shipped package\<close>

text \<open>
  The \<^verbatim>\<open>subject\<close> and \<^verbatim>\<open>html\<close> members of the email are template literals. Their texts
  are not kept in the modelled request body; the conversions that build them are made, in
  the order of the source, since each of them can throw: the order number for the subject,
  then the customer name, the order number, the carrier, the tracking number and, when it is
  truthy, the tracking URL for the html.
\<close>

definition emailData1 :: "env \<Rightarrow> jsval \<Rightarrow> jsval \<Rightarrow> jsval" where
  "emailData1 env customerEmail customerName =
     JObj [(''to'', JArr [JObj [(''email'', customerEmail), (''name'', customerName)]]),
           (''from'', JObj [(''email'', env_val env ''SENDER_FROM_EMAIL''),
                            (''name'', js_or (env_val env ''SENDER_FROM_NAME'') (JStr ''Your Store''))])]"

definition handler1_try :: "env \<Rightarrow> webevent \<Rightarrow> reply io" where
  "handler1_try env ev =
     io_bind (io_lift (json_parse env (body ev))) (\<lambda>payload.
     io_bind (io_lift (js_get payload ''type'')) (\<lambda>ty.
     if ty \<noteq> JStr ''package_shipped'' then io_ret not_handled
     else
     io_bind (io_lift (js_get payload ''data'')) (\<lambda>data.
     io_bind (io_lift (js_get data ''order'')) (\<lambda>order.
     io_bind (io_lift (js_get data ''shipment'')) (\<lambda>shipment.
     io_bind (io_lift (js_get order ''recipient'')) (\<lambda>recipient.
     io_bind (io_lift (js_get recipient ''email'')) (\<lambda>customerEmail.
     io_bind (io_lift (js_get recipient ''name'')) (\<lambda>customerName.
     io_bind (io_lift (js_get order ''external_id'')) (\<lambda>external_id.
     io_bind (io_lift (js_get order ''id'')) (\<lambda>order_id.
     io_bind (io_lift (js_get shipment ''tracking_number'')) (\<lambda>trackingNumber.
     io_bind (io_lift (js_get shipment ''tracking_url'')) (\<lambda>trackingUrl.
     io_bind (io_lift (js_get shipment ''carrier'')) (\<lambda>carrier_name.
     io_bind (io_lift (template env
                ([js_or external_id order_id, customerName, js_or external_id order_id,
                  carrier_name, trackingNumber]
                 @ (if truthy trackingUrl then [trackingUrl] else [])))) (\<lambda>texts.
     io_bind (fetch env (Request ''POST'' ''https://api.sender.net/v2/email''
                (emailData1 env customerEmail customerName))) (\<lambda>senderResponse.
     if \<not> resp_ok senderResponse then
       io_bind (io_lift (resp_text senderResponse)) (\<lambda>errorText.
       io_throw (Error (''Sender API failed: '' @ show_nat (status senderResponse))))
     else
       io_bind (io_lift (resp_json senderResponse)) (\<lambda>senderResult.
       io_ret (Reply 200 (JObj [(''success'', JBool True),
                                 (''message'', JStr ''Email sent successfully''),
                                 (''orderId'', js_or external_id order_id)]))))))))))))))))))"

definition handler1 :: "env \<Rightarrow> webevent \<Rightarrow> world \<Rightarrow> reply \<times> world" where
  "handler1 env ev w =
     (if httpMethod ev \<noteq> ''POST'' then (method_not_allowed, w)
      else (case handler1_try env ev w of
              (Inr r, w') \<Rightarrow> (r, w')
            | (Inl e, w') \<Rightarrow> (failed_webhook e, w')))"

subsection \<open>Variants 2 and 3: the fields read from a shipment notification\<close>

text \<open>
  Both later variants read the same fields in the same way. The label of an item is the
  template \<^verbatim>\<open>${quantity}x ${name}\<close>; an exception in the callback of \<^verbatim>\<open>map\<close> or
  \<^verbatim>\<open>reduce\<close> ends the call.
\<close>

definition item_label :: "env \<Rightarrow> jsval \<Rightarrow> exn + string" where
  "item_label env item =
     ex_bind (js_get item ''quantity'') (\<lambda>q.
     ex_bind (js_get item ''order_item_name'') (\<lambda>n.
     ex_bind (js_to_string env (js_or q (JNum 1))) (\<lambda>quantity.
     ex_bind (js_to_string env (js_or n (JStr ''Item''))) (\<lambda>name.
     Inr (quantity @ ''x '' @ name)))))"

definition itemsList :: "env \<Rightarrow> jsval list \<Rightarrow> exn + string" where
  "itemsList env shippedItems =
     ex_bind (ex_map (item_label env) shippedItems) (\<lambda>labels. Inr (join_with '', '' labels))"

fun itemsCount :: "env \<Rightarrow> jsval \<Rightarrow> jsval list \<Rightarrow> exn + jsval" where
  "itemsCount env acc [] = Inr acc"
| "itemsCount env acc (item # rest) =
     ex_bind (js_get item ''quantity'') (\<lambda>q.
     ex_bind (js_plus env acc (js_or q (JNum 0))) (\<lambda>acc'.
     itemsCount env acc' rest))"

record shipped =
  customerEmail :: jsval
  customerName :: jsval
  orderNumber :: jsval
  trackingNumber :: jsval
  trackingUrl :: jsval
  carrier :: jsval
  items_shipped :: string
  items_count :: jsval

definition shipment_fields :: "env \<Rightarrow> jsval \<Rightarrow> exn + shipped" where
  "shipment_fields env payload =
     ex_bind (js_get payload ''data'') (\<lambda>shipment.
     ex_bind (js_get shipment ''order'') (\<lambda>shipment_order.
     let order = js_or shipment_order (JObj []) in
     ex_bind (js_get order ''recipient'') (\<lambda>recipient.
     ex_bind (js_get_opt recipient ''email'') (\<lambda>email.
     ex_bind (js_get_opt recipient ''name'') (\<lambda>name.
     ex_bind (js_get order ''external_id'') (\<lambda>external_id.
     ex_bind (js_get order ''id'') (\<lambda>order_id.
     ex_bind (js_get shipment ''tracking_number'') (\<lambda>tracking_number.
     ex_bind (js_get shipment ''tracking_url'') (\<lambda>tracking_url.
     ex_bind (js_get shipment ''carrier'') (\<lambda>carrier_name.
     ex_bind (js_get shipment ''shipment_items'') (\<lambda>shipment_items.
     ex_bind (js_array ''shippedItems.map'' (js_or shipment_items (JArr []))) (\<lambda>shippedItems.
     ex_bind (itemsList env shippedItems) (\<lambda>list.
     ex_bind (itemsCount env (JNum 0) shippedItems) (\<lambda>count.
     Inr \<lparr>customerEmail = email, customerName = name,
          orderNumber = js_or external_id order_id,
          trackingNumber = tracking_number, trackingUrl = tracking_url,
          carrier = carrier_name, items_shipped = list, items_count = count\<rparr>))))))))))))))"

text \<open>
  \<^verbatim>\<open>customerName?.split(' ')[0] || ''\<close> and
  \<^verbatim>\<open>customerName?.split(' ').slice(1).join(' ') || ''\<close>: only a string has \<^verbatim>\<open>split\<close>.
\<close>

definition firstname :: "jsval \<Rightarrow> exn + jsval" where
  "firstname name =
     (case name of
        JUndef \<Rightarrow> Inr (JStr [])
      | JNull \<Rightarrow> Inr (JStr [])
      | JStr s \<Rightarrow> Inr (JStr (case split_on CHR '' '' s of [] \<Rightarrow> [] | x # _ \<Rightarrow> x))
      | _ \<Rightarrow> Inl (TypeError ''customerName?.split is not a function''))"

definition lastname :: "jsval \<Rightarrow> exn + jsval" where
  "lastname name =
     (case name of
        JUndef \<Rightarrow> Inr (JStr [])
      | JNull \<Rightarrow> Inr (JStr [])
      | JStr s \<Rightarrow> Inr (JStr (join_with '' '' (drop 1 (split_on CHR '' '' s))))
      | _ \<Rightarrow> Inl (TypeError ''customerName?.split is not a function''))"

definition no_customer_email :: reply where
  "no_customer_email = Reply 400 (JObj [(''error'', JStr ''No customer email in payload'')])"

definition no_group_id :: reply where
  "no_group_id =
     Reply 500 (JObj [(''error'', JStr ''SENDER_GROUP_ID environment variable not set''),
                      (''note'', JStr ''Please add your Sender group ID to environment variables'')])"

text \<open>
  The method call \<^verbatim>\<open>v.toString()\<close>, which \<^verbatim>\<open>items_count\<close> applies to the count: there is
  none on \<^verbatim>\<open>null\<close> and \<^verbatim>\<open>undefined\<close>, and a member \<^verbatim>\<open>toString\<close> of an object parsed from
  JSON is not a function.
\<close>

definition js_toString :: "env \<Rightarrow> jsval \<Rightarrow> exn + string" where
  "js_toString env v =
     (case v of
        JUndef \<Rightarrow> Inl (cannot_read ''undefined'' ''toString'')
      | JNull \<Rightarrow> Inl (cannot_read ''null'' ''toString'')
      | JObj kvs \<Rightarrow>
          (if map_of kvs ''toString'' \<noteq> None
           then Inl (TypeError ''itemsCount.toString is not a function'')
           else Inr ''[object Object]'')
      | _ \<Rightarrow> js_to_string env v)"

definition tracking_fields :: "env \<Rightarrow> shipped \<Rightarrow> exn + (string \<times> jsval) list" where
  "tracking_fields env f =
     ex_bind (js_toString env (items_count f)) (\<lambda>count.
     Inr [(''order_number'', orderNumber f),
          (''tracking_number'', trackingNumber f),
          (''tracking_url'', trackingUrl f),
          (''carrier'', carrier f),
          (''items_shipped'', JStr (items_shipped f)),
          (''items_count'', JStr count)])"

text \<open>
  The URL of a subscriber:
  \<^verbatim>\<open>`https://api.sender.net/v2/subscribers/${encodeURIComponent(customerEmail)}`\<close>. The
  email is converted to a string and then encoded; either step can throw.
\<close>

definition subscriber_url :: "env \<Rightarrow> jsval \<Rightarrow> exn + string" where
  "subscriber_url env email =
     ex_bind (js_to_string env email) (\<lambda>text.
     ex_bind (encodeURIComponent env text) (\<lambda>encoded.
     Inr (''https://api.sender.net/v2/subscribers/'' @ encoded)))"

subsection \<open>Variant 2: remove from the group, update, add back\<close>

definition remove_request :: "string \<Rightarrow> string \<Rightarrow> request" where
  "remove_request url groupId = Request ''DELETE'' (url @ ''/groups/'' @ groupId) JUndef"

definition subscriberData :: "env \<Rightarrow> shipped \<Rightarrow> exn + jsval" where
  "subscriberData env f =
     ex_bind (firstname (customerName f)) (\<lambda>forename.
     ex_bind (lastname (customerName f)) (\<lambda>surname.
     ex_bind (tracking_fields env f) (\<lambda>fields.
     Inr (JObj [(''email'', customerEmail f), (''firstname'', forename), (''lastname'', surname),
                (''fields'', JObj (fields @ [(''last_shipment_date'', JStr (now_iso env))]))]))))"

definition update_request :: "jsval \<Rightarrow> request" where
  "update_request data = Request ''POST'' ''https://api.sender.net/v2/subscribers'' data"

definition add_request :: "string \<Rightarrow> string \<Rightarrow> request" where
  "add_request url groupId =
     Request ''POST'' (url @ ''/groups'') (JObj [(''groups'', JArr [JStr groupId])])"

definition added_to_group :: "shipped \<Rightarrow> (string \<times> jsval) list" where
  "added_to_group f =
     [(''success'', JBool True),
      (''message'', JStr ''Customer added to order-shipped group, automation will trigger''),
      (''orderId'', orderNumber f),
      (''email'', customerEmail f)]"

text \<open>
  The removal, URL included, sits in a \<^verbatim>\<open>try\<close> of its own whose \<^verbatim>\<open>catch\<close> only logs;
  the URL of the addition is built outside of any inner \<^verbatim>\<open>try\<close>.
\<close>

definition handler2_steps :: "env \<Rightarrow> shipped \<Rightarrow> string \<Rightarrow> reply io" where
  "handler2_steps env f groupId =
     io_bind (io_swallow
        (io_bind (io_lift (subscriber_url env (customerEmail f))) (\<lambda>url.
         fetch env (remove_request url groupId)))) (\<lambda>_.
     io_bind (io_lift (subscriberData env f)) (\<lambda>data.
     io_bind (fetch env (update_request data)) (\<lambda>updateResponse.
     io_bind (if \<not> resp_ok updateResponse \<and> status updateResponse \<noteq> 409
              then io_bind (io_lift (resp_text updateResponse)) (\<lambda>errorText. io_ret ())
              else io_ret ()) (\<lambda>_.
     io_bind (io_lift (subscriber_url env (customerEmail f))) (\<lambda>url.
     io_bind (fetch env (add_request url groupId)) (\<lambda>addToGroupResponse.
     if \<not> resp_ok addToGroupResponse then
       io_bind (io_lift (resp_text addToGroupResponse)) (\<lambda>errorText.
       io_throw (Error (''Failed to add subscriber to group: ''
                        @ show_nat (status addToGroupResponse) @ '' - '' @ errorText)))
     else
       io_ret (Reply 200 (JObj (added_to_group f @ [(''itemsCount'', items_count f)])))))))))"

definition handler2_try :: "env \<Rightarrow> webevent \<Rightarrow> reply io" where
  "handler2_try env ev =
     io_bind (io_lift (json_parse env (body ev))) (\<lambda>payload.
     io_bind (io_lift (js_get payload ''type'')) (\<lambda>ty.
     if ty \<noteq> JStr ''shipment_sent'' then io_ret not_handled
     else
     io_bind (io_lift (shipment_fields env payload)) (\<lambda>f.
     if \<not> truthy (customerEmail f) then io_ret no_customer_email
     else
       (case getenv env ''SENDER_GROUP_ID'' of
          None \<Rightarrow> io_ret no_group_id
        | Some groupId \<Rightarrow>
            if groupId = [] then io_ret no_group_id
            else handler2_steps env f groupId))))"

definition handler2 :: "env \<Rightarrow> webevent \<Rightarrow> world \<Rightarrow> reply \<times> world" where
  "handler2 env ev w =
     (if httpMethod ev \<noteq> ''POST'' then (method_not_allowed, w)
      else (case handler2_try env ev w of
              (Inr r, w') \<Rightarrow> (r, w')
            | (Inl e, w') \<Rightarrow> (failed_webhook e, w')))"

subsection \<open>Variant 3: create the subscriber in the group, update on a conflict\<close>

definition create_data :: "env \<Rightarrow> shipped \<Rightarrow> string \<Rightarrow> exn + jsval" where
  "create_data env f groupId =
     ex_bind (firstname (customerName f)) (\<lambda>forename.
     ex_bind (lastname (customerName f)) (\<lambda>surname.
     ex_bind (tracking_fields env f) (\<lambda>fields.
     Inr (JObj [(''email'', customerEmail f), (''firstname'', forename), (''lastname'', surname),
                (''groups'', JArr [JStr groupId]),
                (''fields'', JObj fields),
                (''trigger_automation'', JBool True)]))))"

definition create_request :: "jsval \<Rightarrow> request" where
  "create_request data = Request ''POST'' ''https://api.sender.net/v2/subscribers'' data"

definition patch_data :: "env \<Rightarrow> shipped \<Rightarrow> string \<Rightarrow> exn + jsval" where
  "patch_data env f groupId =
     ex_bind (tracking_fields env f) (\<lambda>fields.
     Inr (JObj [(''email'', customerEmail f),
                (''groups'', JArr [JStr groupId]),
                (''fields'', JObj fields)]))"

definition patch_request :: "jsval \<Rightarrow> request" where
  "patch_request data = Request ''PATCH'' ''https://api.sender.net/v2/subscribers'' data"

definition handler3_steps :: "env \<Rightarrow> shipped \<Rightarrow> string \<Rightarrow> reply io" where
  "handler3_steps env f groupId =
     io_bind (io_lift (create_data env f groupId)) (\<lambda>data.
     io_bind (fetch env (create_request data)) (\<lambda>senderResponse.
     io_bind
       (if \<not> resp_ok senderResponse then
          io_bind (io_lift (resp_text senderResponse)) (\<lambda>errorText.
          if status senderResponse = 409 then
            io_bind (io_lift (patch_data env f groupId)) (\<lambda>update.
            io_bind (fetch env (patch_request update)) (\<lambda>updateResponse.
            if \<not> resp_ok updateResponse then
              io_bind (io_lift (resp_text updateResponse)) (\<lambda>updateError.
              io_throw (Error (''Failed to update subscriber: ''
                               @ show_nat (status updateResponse) @ '' - '' @ updateError)))
            else io_ret ()))
          else
            io_throw (Error (''Sender API failed: ''
                             @ show_nat (status senderResponse) @ '' - '' @ errorText)))
        else io_ret ()) (\<lambda>_.
     io_ret (Reply 200 (JObj (added_to_group f))))))"

definition handler3_try :: "env \<Rightarrow> webevent \<Rightarrow> reply io" where
  "handler3_try env ev =
     io_bind (io_lift (json_parse env (body ev))) (\<lambda>payload.
     io_bind (io_lift (js_get payload ''type'')) (\<lambda>ty.
     if ty \<noteq> JStr ''shipment_sent'' then io_ret not_handled
     else
     io_bind (io_lift (shipment_fields env payload)) (\<lambda>f.
     if \<not> truthy (customerEmail f) then io_ret no_customer_email
     else
       (case getenv env ''SENDER_GROUP_ID'' of
          None \<Rightarrow> io_ret no_group_id
        | Some groupId \<Rightarrow>
            if groupId = [] then io_ret no_group_id
            else handler3_steps env f groupId))))"

definition handler3 :: "env \<Rightarrow> webevent \<Rightarrow> world \<Rightarrow> reply \<times> world" where
  "handler3 env ev w =
     (if httpMethod ev \<noteq> ''POST'' then (method_not_allowed, w)
      else (case handler3_try env ev w of
              (Inr r, w') \<Rightarrow> (r, w')
            | (Inl e, w') \<Rightarrow> (failed_webhook e, w')))"

subsection \<open>The notification in the words of the specification\<close>

text \<open>
  A value has a text when its conversion to a string does not throw. The fields of a
  notification can be read when its \<^verbatim>\<open>data\<close> member is present and its \<^verbatim>\<open>shipment_items\<close>
  member is either falsy (missing, \<^verbatim>\<open>null\<close>, and so on) or an array of entries, none
  \<^verbatim>\<open>null\<close>, whose \<^verbatim>\<open>quantity\<close> and \<^verbatim>\<open>order_item_name\<close> have a text.
\<close>

definition has_text :: "env \<Rightarrow> jsval \<Rightarrow> bool" where
  "has_text env v = (case js_to_string env v of Inr s \<Rightarrow> True | Inl e \<Rightarrow> False)"

definition field_of :: "jsval \<Rightarrow> string \<Rightarrow> jsval" where
  "field_of v k = (case js_get v k of Inr x \<Rightarrow> x | Inl e \<Rightarrow> JUndef)"

definition readable_item :: "env \<Rightarrow> jsval \<Rightarrow> bool" where
  "readable_item env item =
     (item \<noteq> JNull \<and> item \<noteq> JUndef
      \<and> has_text env (field_of item ''quantity'')
      \<and> has_text env (field_of item ''order_item_name''))"

definition readable_shipment :: "env \<Rightarrow> jsval \<Rightarrow> bool" where
  "readable_shipment env payload =
     (case js_get payload ''data'' of
        Inl e \<Rightarrow> False
      | Inr shipment \<Rightarrow>
          shipment \<noteq> JNull \<and> shipment \<noteq> JUndef
          \<and> (case field_of shipment ''shipment_items'' of
                JArr items \<Rightarrow> list_all (readable_item env) items
              | v \<Rightarrow> \<not> truthy v))"

text \<open>
  The customer email of a notification: \<^verbatim>\<open>data.order.recipient.email\<close>, missing when one
  of the steps towards it is.
\<close>

definition customer_email :: "jsval \<Rightarrow> jsval" where
  "customer_email payload =
     (let order = js_or (field_of (field_of payload ''data'') ''order'') (JObj [])
      in field_of (field_of order ''recipient'') ''email'')"

text \<open>
  The quantity of an item when it is a number; the count takes a missing quantity as 0, the
  list as 1 (and so does \<^verbatim>\<open>item.quantity || 1\<close> with a quantity of 0). An item is plain when
  its quantity is missing, \<^verbatim>\<open>null\<close> or a whole number and its name has a text. The
  quantities of a list are small when their absolute values add up to less than 2^53, so
  that every sum of them is a number that a double holds exactly. \<open>request_field\<close> reads a
  member of the \<^verbatim>\<open>fields\<close> object of a request body.
\<close>

definition quantity_of :: "jsval \<Rightarrow> int option" where
  "quantity_of item = (case js_get item ''quantity'' of Inr (JNum n) \<Rightarrow> Some n | _ \<Rightarrow> None)"

definition counted_quantity :: "jsval \<Rightarrow> int" where
  "counted_quantity item = (case quantity_of item of None \<Rightarrow> 0 | Some n \<Rightarrow> n)"

definition listed_quantity :: "jsval \<Rightarrow> int" where
  "listed_quantity item = (case quantity_of item of None \<Rightarrow> 1 | Some n \<Rightarrow> if n = 0 then 1 else n)"

definition listed_name :: "env \<Rightarrow> jsval \<Rightarrow> string" where
  "listed_name env item =
     (case js_to_string env (js_or (field_of item ''order_item_name'') (JStr ''Item'')) of
        Inr s \<Rightarrow> s
      | Inl e \<Rightarrow> [])"

definition plain_item :: "env \<Rightarrow> jsval \<Rightarrow> bool" where
  "plain_item env item =
     ((case js_get item ''quantity'' of
         Inr JUndef \<Rightarrow> True
       | Inr JNull \<Rightarrow> True
       | Inr (JNum n) \<Rightarrow> True
       | _ \<Rightarrow> False)
      \<and> has_text env (field_of item ''order_item_name''))"

definition small_quantities :: "jsval list \<Rightarrow> bool" where
  "small_quantities items =
     (sum_list (map (\<lambda>item. \<bar>counted_quantity item\<bar>) items) < 9007199254740992)"

definition request_field :: "request \<Rightarrow> string \<Rightarrow> exn + jsval" where
  "request_field rq k = ex_bind (js_get (rq_data rq) ''fields'') (\<lambda>fields. js_get fields k)"

section \<open>The polling job\<close>

subsection \<open>The deduplication store\<close>

text \<open>
  \<^verbatim>\<open>store.get\<close> and \<^verbatim>\<open>store.set\<close> of the store \<^verbatim>\<open>shipment-emails\<close>, whose
  library is not part of the repository. Loading the library, opening the store and the
  access itself are one step. The store keeps its entries under texts: \<open>store_key\<close> is the
  text under which an access looks, the text of its argument. The access fails with the
  exception the environment names, or because its argument has no text; otherwise it reads
  (writes) the entry under that text.
\<close>

definition store_key :: "env \<Rightarrow> world \<Rightarrow> jsval \<Rightarrow> exn + string" where
  "store_key env w key =
     (case blob_error env (trace w) of
        Some e \<Rightarrow> Inl e
      | None \<Rightarrow> js_to_string env key)"

definition store_read :: "env \<Rightarrow> world \<Rightarrow> jsval \<Rightarrow> exn + string option" where
  "store_read env w key = ex_bind (store_key env w key) (\<lambda>k. Inr (blobs w k))"

definition store_get :: "env \<Rightarrow> jsval \<Rightarrow> string option io" where
  "store_get env key w =
     (let r = store_read env w key in (r, w\<lparr>trace := trace w @ [BlobGet key r]\<rparr>))"

definition store_set :: "env \<Rightarrow> jsval \<Rightarrow> string \<Rightarrow> unit io" where
  "store_set env key v w =
     (case store_key env w key of
        Inl e \<Rightarrow> (Inl e, w\<lparr>trace := trace w @ [BlobSet key v (Inl e)]\<rparr>)
      | Inr k \<Rightarrow> (Inr (), w\<lparr>blobs := (blobs w)(k \<mapsto> v),
                              trace := trace w @ [BlobSet key v (Inr ())]\<rparr>))"

definition checkIfEmailSent :: "env \<Rightarrow> jsval \<Rightarrow> jsval io" where
  "checkIfEmailSent env orderId w =
     (case store_get env orderId w of
        (Inr sent, w') \<Rightarrow> (Inr (JBool (sent = Some ''sent'')), w')
      | (Inl e, w') \<Rightarrow> (Inr (JBool False), w'))"

definition markEmailAsSent :: "env \<Rightarrow> jsval \<Rightarrow> jsval io" where
  "markEmailAsSent env orderId w =
     (case store_set env orderId ''sent'' w of (r, w') \<Rightarrow> (Inr JUndef, w'))"

subsection \<open>Fetching the recently shipped orders\<close>

definition twentyFourHoursAgo :: "env \<Rightarrow> int" where
  "twentyFourHoursAgo env = now_ms env - 24 * 60 * 60 * 1000"

text \<open>The callback of \<^verbatim>\<open>orders.filter\<close>.\<close>

definition keep_order :: "env \<Rightarrow> jsval \<Rightarrow> exn + bool" where
  "keep_order env order =
     ex_bind (js_get order ''shipments'') (\<lambda>shipments.
     if \<not> truthy shipments then Inr False
     else
     ex_bind (js_get shipments ''length'') (\<lambda>len.
     if len = JNum 0 then Inr False
     else
     ex_bind (js_first shipments) (\<lambda>shipment.
     ex_bind (js_get shipment ''shipped_at'') (\<lambda>shipped_at.
     ex_bind (if truthy shipped_at then Inr shipped_at else js_get order ''updated'') (\<lambda>stamp.
     ex_bind (js_date env stamp) (\<lambda>shipmentDate.
     Inr (case shipmentDate of
            None \<Rightarrow> False
          | Some t \<Rightarrow> t > twentyFourHoursAgo env)))))))"

fun ex_filter :: "('a \<Rightarrow> exn + bool) \<Rightarrow> 'a list \<Rightarrow> exn + 'a list" where
  "ex_filter p [] = Inr []"
| "ex_filter p (x # xs) =
     ex_bind (p x) (\<lambda>b. ex_bind (ex_filter p xs) (\<lambda>ys. Inr (if b then x # ys else ys)))"

definition orders_request :: request where
  "orders_request = Request ''GET'' ''https://api.printful.com/orders'' JUndef"

definition fetch_orders_try :: "env \<Rightarrow> jsval list io" where
  "fetch_orders_try env =
     io_bind (fetch env orders_request) (\<lambda>response.
     if \<not> resp_ok response then io_ret []
     else
     io_bind (io_lift (resp_json response)) (\<lambda>data.
     io_bind (io_lift (js_get data ''result'')) (\<lambda>result.
     io_bind (io_lift (js_array ''orders.filter'' (js_or result (JArr [])))) (\<lambda>orders.
     io_lift (ex_filter (keep_order env) orders)))))"

definition fetchRecentShippedOrders :: "env \<Rightarrow> world \<Rightarrow> jsval list \<times> world" where
  "fetchRecentShippedOrders env w =
     (case fetch_orders_try env w of
        (Inr orders, w') \<Rightarrow> (orders, w')
      | (Inl e, w') \<Rightarrow> ([], w'))"

subsection \<open>The shipment of one order\<close>

definition item_summary :: "jsval \<Rightarrow> exn + jsval" where
  "item_summary item =
     ex_bind (js_get item ''name'') (\<lambda>name.
     ex_bind (js_get item ''quantity'') (\<lambda>quantity.
     ex_bind (js_get item ''variant_name'') (\<lambda>variant.
     Inr (JObj [(''name'', name), (''quantity'', quantity), (''variant'', variant)]))))"

definition shipment_info_of :: "jsval \<Rightarrow> exn + jsval" where
  "shipment_info_of data =
     ex_bind (js_get data ''result'') (\<lambda>order.
     ex_bind (js_get order ''shipments'') (\<lambda>shipments.
     if \<not> truthy shipments then Inr JNull
     else
     ex_bind (js_get shipments ''length'') (\<lambda>len.
     if len = JNum 0 then Inr JNull
     else
     ex_bind (js_first shipments) (\<lambda>shipment.
     ex_bind (js_get order ''id'') (\<lambda>order_id.
     ex_bind (js_get order ''external_id'') (\<lambda>external_id.
     ex_bind (js_get order ''recipient'') (\<lambda>recipient.
     ex_bind (js_get recipient ''email'') (\<lambda>email.
     ex_bind (js_get recipient ''name'') (\<lambda>name.
     ex_bind (js_get shipment ''tracking_number'') (\<lambda>tracking_number.
     ex_bind (js_get shipment ''tracking_url'') (\<lambda>tracking_url.
     ex_bind (js_get shipment ''carrier'') (\<lambda>carrier_name.
     ex_bind (js_get shipment ''service'') (\<lambda>service.
     ex_bind (js_get order ''items'') (\<lambda>order_items.
     ex_bind (js_array ''order.items.map'' order_items) (\<lambda>items.
     ex_bind (ex_map item_summary items) (\<lambda>summaries.
     Inr (JObj [(''orderId'', order_id), (''externalId'', external_id),
                (''customerEmail'', email), (''customerName'', name),
                (''trackingNumber'', tracking_number), (''trackingUrl'', tracking_url),
                (''carrier'', carrier_name), (''service'', service),
                (''items'', JArr summaries)])))))))))))))))))"

text \<open>
  The URL \<^verbatim>\<open>`https://api.printful.com/orders/${orderId}`\<close> is built inside the \<^verbatim>\<open>try\<close> of
  the function: when the id has no text, no request is made and the function returns
  \<^verbatim>\<open>null\<close>.
\<close>

definition shipment_request :: "string \<Rightarrow> request" where
  "shipment_request id_text =
     Request ''GET'' (''https://api.printful.com/orders/'' @ id_text) JUndef"

definition shipment_info_try :: "env \<Rightarrow> jsval \<Rightarrow> jsval io" where
  "shipment_info_try env orderId =
     io_bind (io_lift (js_to_string env orderId)) (\<lambda>id_text.
     io_bind (fetch env (shipment_request id_text)) (\<lambda>response.
     if \<not> resp_ok response then io_ret JNull
     else
     io_bind (io_lift (resp_json response)) (\<lambda>data.
     io_lift (shipment_info_of data))))"

definition getShipmentInfo :: "env \<Rightarrow> jsval \<Rightarrow> jsval \<Rightarrow> jsval io" where
  "getShipmentInfo env apiKey orderId w =
     (case shipment_info_try env orderId w of
        (Inr info, w') \<Rightarrow> (Inr info, w')
      | (Inl e, w') \<Rightarrow> (Inr JNull, w'))"

subsection \<open>Sending the shipment email\<close>

text \<open>
  The html and the subject of the email are template literals built before the \<^verbatim>\<open>try\<close> of
  the function, so an exception there leaves the function. Their texts are not kept in the
  modelled payload; the reads and the conversions that build them are made in the order of
  the source. For each item: its name, its variant when that is truthy, its quantity. Then
  the tracking URL when it is truthy, the customer name, the order number (the external id,
  else the id), the tracking number, the carrier, and the service when it is truthy.
\<close>

definition item_html :: "env \<Rightarrow> jsval \<Rightarrow> exn + unit" where
  "item_html env item =
     ex_bind (js_get item ''name'') (\<lambda>name.
     ex_bind (js_to_string env name) (\<lambda>name_text.
     ex_bind (js_get item ''variant'') (\<lambda>variant.
     ex_bind (if truthy variant then js_to_string env variant else Inr []) (\<lambda>variant_text.
     ex_bind (js_get item ''quantity'') (\<lambda>quantity.
     ex_bind (js_to_string env quantity) (\<lambda>quantity_text. Inr ()))))))"

definition email_payload :: "env \<Rightarrow> jsval \<Rightarrow> exn + jsval" where
  "email_payload env shipmentInfo =
     (let fromEmail = js_or (env_val env ''SENDER_FROM_EMAIL'') (JStr ''orders@yourdomain.com'');
          fromName = js_or (env_val env ''SENDER_FROM_NAME'') (JStr ''Your Store'')
      in
      ex_bind (js_get shipmentInfo ''items'') (\<lambda>info_items.
      ex_bind (js_array ''shipmentInfo.items.map'' info_items) (\<lambda>items.
      ex_bind (ex_map (item_html env) items) (\<lambda>itemsHtml.
      ex_bind (js_get shipmentInfo ''trackingUrl'') (\<lambda>tracking_url.
      ex_bind (if truthy tracking_url then js_to_string env tracking_url else Inr []) (\<lambda>button.
      ex_bind (js_get shipmentInfo ''customerName'') (\<lambda>name.
      ex_bind (js_get shipmentInfo ''externalId'') (\<lambda>external_id.
      ex_bind (js_get shipmentInfo ''orderId'') (\<lambda>order_id.
      ex_bind (js_get shipmentInfo ''trackingNumber'') (\<lambda>tracking_number.
      ex_bind (js_get shipmentInfo ''carrier'') (\<lambda>carrier_name.
      ex_bind (js_get shipmentInfo ''service'') (\<lambda>service.
      ex_bind (template env
                 ([name, js_or external_id order_id, tracking_number, carrier_name]
                  @ (if truthy service then [service] else []))) (\<lambda>html.
      ex_bind (js_get shipmentInfo ''customerEmail'') (\<lambda>email.
      Inr (JObj [(''to'', JArr [JObj [(''email'', email), (''name'', name)]]),
                 (''from'', JObj [(''email'', fromEmail), (''name'', fromName)])])))))))))))))))"

definition send_request :: "jsval \<Rightarrow> request" where
  "send_request payload = Request ''POST'' ''https://api.sender.net/v2/email/send'' payload"

definition send_try :: "env \<Rightarrow> jsval \<Rightarrow> jsval io" where
  "send_try env payload =
     io_bind (fetch env (send_request payload)) (\<lambda>response.
     io_bind (io_lift (resp_json response)) (\<lambda>result.
     if resp_ok response then io_ret (JObj [(''success'', JBool True), (''data'', result)])
     else
     io_bind (io_lift (js_get result ''message'')) (\<lambda>message.
     io_ret (JObj [(''success'', JBool False),
                   (''error'', js_or message (JStr ''Failed to send email''))]))))"

definition sendShipmentEmail :: "env \<Rightarrow> jsval \<Rightarrow> jsval \<Rightarrow> jsval \<Rightarrow> jsval io" where
  "sendShipmentEmail env apiKey order shipmentInfo =
     io_bind (io_lift (email_payload env shipmentInfo)) (\<lambda>payload w.
     case send_try env payload w of
       (Inr r, w') \<Rightarrow> (Inr r, w')
     | (Inl e, w') \<Rightarrow>
         (Inr (JObj [(''success'', JBool False), (''error'', JStr (exn_message e))]), w'))"

subsection \<open>The handler\<close>

text \<open>
  The loop of the handler calls four functions of the file. To state what its
  \<^verbatim>\<open>try\<close>/\<^verbatim>\<open>catch\<close> does with an exception, the loop is written over any four such
  functions; \<open>helpers_of\<close> gives the four of the file.
\<close>

record helpers =
  checkIfEmailSent_of :: "jsval \<Rightarrow> jsval io"
  getShipmentInfo_of :: "jsval \<Rightarrow> jsval \<Rightarrow> jsval io"
  sendShipmentEmail_of :: "jsval \<Rightarrow> jsval \<Rightarrow> jsval \<Rightarrow> jsval io"
  markEmailAsSent_of :: "jsval \<Rightarrow> jsval io"

definition helpers_of :: "env \<Rightarrow> helpers" where
  "helpers_of env =
     \<lparr>checkIfEmailSent_of = checkIfEmailSent env,
      getShipmentInfo_of = getShipmentInfo env,
      sendShipmentEmail_of = sendShipmentEmail env,
      markEmailAsSent_of = markEmailAsSent env\<rparr>"

text \<open>How the body of the \<^verbatim>\<open>try\<close> ends for one order when it does not throw.\<close>

datatype order_result = Skipped | NoShipmentInfo | EmailSent | EmailFailed

text \<open>
  A line of the log that names the order: the template \<^verbatim>\<open>${order.id}\<close> converts the id to
  a string and throws when the id has no text.
\<close>

definition log_order :: "env \<Rightarrow> jsval \<Rightarrow> unit io" where
  "log_order env order_id = io_bind (io_lift (js_to_string env order_id)) (\<lambda>text. io_ret ())"

text \<open>What follows the \<^verbatim>\<open>continue\<close> of an order whose email was already sent.\<close>

definition deliver :: "helpers \<Rightarrow> env \<Rightarrow> jsval \<Rightarrow> jsval \<Rightarrow> jsval \<Rightarrow> jsval \<Rightarrow> order_result io" where
  "deliver H env printfulApiKey senderApiKey order order_id =
     io_bind (getShipmentInfo_of H printfulApiKey order_id) (\<lambda>shipmentInfo.
     if \<not> truthy shipmentInfo then
       io_bind (log_order env order_id) (\<lambda>_. io_ret NoShipmentInfo)
     else
     io_bind (sendShipmentEmail_of H senderApiKey order shipmentInfo) (\<lambda>emailResult.
     io_bind (io_lift (js_get emailResult ''success'')) (\<lambda>success.
     if truthy success then
       io_bind (log_order env order_id) (\<lambda>_.
       io_bind (markEmailAsSent_of H order_id) (\<lambda>_. io_ret EmailSent))
     else
       io_bind (log_order env order_id) (\<lambda>_. io_ret EmailFailed))))"

definition try_order :: "helpers \<Rightarrow> env \<Rightarrow> jsval \<Rightarrow> jsval \<Rightarrow> jsval \<Rightarrow> order_result io" where
  "try_order H env printfulApiKey senderApiKey order =
     io_bind (io_lift (js_get order ''id'')) (\<lambda>order_id.
     io_bind (checkIfEmailSent_of H order_id) (\<lambda>alreadySent.
     if truthy alreadySent then
       io_bind (log_order env order_id) (\<lambda>_. io_ret Skipped)
     else deliver H env printfulApiKey senderApiKey order order_id))"

text \<open>
  The loop with its two counters. \<^verbatim>\<open>emailsSent++\<close> and \<^verbatim>\<open>errors++\<close> are the last
  statements of their branches. The \<^verbatim>\<open>catch\<close> first logs a line that names the order,
  which throws again when the order is \<^verbatim>\<open>null\<close> or its id has no text, and then counts an
  error.
\<close>

fun process_orders ::
  "helpers \<Rightarrow> env \<Rightarrow> jsval \<Rightarrow> jsval \<Rightarrow> jsval list \<Rightarrow> nat \<times> nat \<Rightarrow> (nat \<times> nat) io" where
  "process_orders H env pk sk [] counts w = (Inr counts, w)"
| "process_orders H env pk sk (order # rest) (emailsSent, errors) w =
     (case try_order H env pk sk order w of
        (Inr EmailSent, w') \<Rightarrow> process_orders H env pk sk rest (emailsSent + 1, errors) w'
      | (Inr EmailFailed, w') \<Rightarrow> process_orders H env pk sk rest (emailsSent, errors + 1) w'
      | (Inr Skipped, w') \<Rightarrow> process_orders H env pk sk rest (emailsSent, errors) w'
      | (Inr NoShipmentInfo, w') \<Rightarrow> process_orders H env pk sk rest (emailsSent, errors) w'
      | (Inl e, w') \<Rightarrow>
          (case io_bind (io_lift (js_get order ''id'')) (log_order env) w' of
             (Inl e', w'') \<Rightarrow> (Inl e', w'')
           | (Inr u, w'') \<Rightarrow> process_orders H env pk sk rest (emailsSent, errors + 1) w''))"

definition missing_keys :: reply where
  "missing_keys =
     Reply 500 (JObj [(''error'', JStr ''Missing API keys''),
                      (''details'', JStr ''Set PRINTFUL_API_KEY and SENDER_API_KEY in environment variables'')])"

definition check_completed :: "nat \<Rightarrow> nat \<Rightarrow> nat \<Rightarrow> reply" where
  "check_completed ordersFound emailsSent errors =
     Reply 200 (JObj [(''message'', JStr ''Check completed''),
                      (''ordersFound'', JNum (int ordersFound)),
                      (''emailsSent'', JNum (int emailsSent)),
                      (''errors'', JNum (int errors))])"

definition internal_error :: "exn \<Rightarrow> reply" where
  "internal_error e =
     Reply 500 (JObj [(''error'', JStr ''Internal error''), (''message'', JStr (exn_message e))])"

definition handler_with :: "helpers \<Rightarrow> env \<Rightarrow> world \<Rightarrow> reply \<times> world" where
  "handler_with H env w =
     (let printfulApiKey = env_val env ''PRINTFUL_API_KEY'';
          senderApiKey = env_val env ''SENDER_API_KEY''
      in
      if \<not> truthy printfulApiKey \<or> \<not> truthy senderApiKey then (missing_keys, w)
      else
        (case fetchRecentShippedOrders env w of
           (orders, w1) \<Rightarrow>
             (case process_orders H env printfulApiKey senderApiKey orders (0, 0) w1 of
                (Inr (emailsSent, errors), w2) \<Rightarrow>
                  (check_completed (length orders) emailsSent errors, w2)
              | (Inl e, w2) \<Rightarrow> (internal_error e, w2))))"

definition handler :: "env \<Rightarrow> world \<Rightarrow> reply \<times> world" where
  "handler env w = handler_with (helpers_of env) env w"

subsection \<open>The filter in the words of the specification\<close>

text \<open>
  The first shipment of an order that has a non-empty shipments array; its timestamp, read
  from \<^verbatim>\<open>shipped_at\<close> and, when that is falsy, from the \<^verbatim>\<open>updated\<close> member of the order;
  and the test that the time of the timestamp is later than 24 hours before now. An order
  is typed when it can be read, its \<^verbatim>\<open>shipments\<close> member is missing, \<^verbatim>\<open>null\<close> or an
  array, the first element of a non-empty array is not \<^verbatim>\<open>null\<close>, and the timestamp of
  that first element can be converted to a time without an exception.
\<close>

definition first_shipment :: "jsval \<Rightarrow> jsval option" where
  "first_shipment order =
     (case js_get order ''shipments'' of
        Inr (JArr (shipment # rest)) \<Rightarrow> Some shipment
      | _ \<Rightarrow> None)"

definition shipment_timestamp :: "jsval \<Rightarrow> jsval \<Rightarrow> jsval" where
  "shipment_timestamp order shipment =
     js_or (field_of shipment ''shipped_at'') (field_of order ''updated'')"

definition shipped_in_window :: "env \<Rightarrow> jsval \<Rightarrow> bool" where
  "shipped_in_window env order =
     (case first_shipment order of
        None \<Rightarrow> False
      | Some shipment \<Rightarrow>
          (case js_date env (shipment_timestamp order shipment) of
             Inr (Some t) \<Rightarrow> now_ms env - 86400000 < t
           | _ \<Rightarrow> False))"

definition typed_order :: "env \<Rightarrow> jsval \<Rightarrow> bool" where
  "typed_order env order =
     (case js_get order ''shipments'' of
        Inl e \<Rightarrow> False
      | Inr (JArr []) \<Rightarrow> True
      | Inr (JArr (shipment # rest)) \<Rightarrow>
          shipment \<noteq> JNull \<and> shipment \<noteq> JUndef
          \<and> (case js_date env (shipment_timestamp order shipment) of
                Inr t \<Rightarrow> True
              | Inl e \<Rightarrow> False)
      | Inr v \<Rightarrow> \<not> truthy v)"

subsection \<open>The attempts of a run\<close>

text \<open>
  What the body of the \<^verbatim>\<open>try\<close> gives for each order of a list, in order, each attempt
  starting in the world the previous one left; and the attempts that the two counters count.
  The id of an order has a text when a line of the log can name the order.
\<close>

fun attempts ::
  "helpers \<Rightarrow> env \<Rightarrow> jsval \<Rightarrow> jsval \<Rightarrow> jsval list \<Rightarrow> world
     \<Rightarrow> (exn + order_result) list \<times> world" where
  "attempts H env pk sk [] w = ([], w)"
| "attempts H env pk sk (order # rest) w =
     (case try_order H env pk sk order w of
        (r, w') \<Rightarrow> (case attempts H env pk sk rest w' of (rs, w'') \<Rightarrow> (r # rs, w'')))"

definition sent_count :: "(exn + order_result) list \<Rightarrow> nat" where
  "sent_count rs = length (filter (\<lambda>r. r = Inr EmailSent) rs)"

definition error_count :: "(exn + order_result) list \<Rightarrow> nat" where
  "error_count rs = length (filter (\<lambda>r. r = Inr EmailFailed \<or> isl r) rs)"

definition id_has_text :: "env \<Rightarrow> jsval \<Rightarrow> bool" where
  "id_has_text env order = has_text env (field_of order ''id'')"

text \<open>Whether the answer to the send request makes \<^verbatim>\<open>sendShipmentEmail\<close> report success.\<close>

definition send_reported :: "exn + response \<Rightarrow> bool" where
  "send_reported x =
     (case x of
        Inl e \<Rightarrow> False
      | Inr r \<Rightarrow> resp_ok r \<and> (case resp_json r of Inl e \<Rightarrow> False | Inr j \<Rightarrow> True))"

section \<open>The bulk-index endpoint\<close>

text \<open>
  \<^verbatim>\<open>POST /api/index\<close> of the search backend. \<^verbatim>\<open>axios.post\<close> resolves, or rejects with
  an error whose message the handler sends back; which of the two is the network's answer.
  \<open>index_posts\<close> is the handler, given the value of \<^verbatim>\<open>req.body\<close>.
\<close>

datatype sent = Sent (sent_status: nat) (sent_text: string)

record solr_env =
  solr_host :: "string option"
  solr_core :: "string option"
  axios_post :: "request \<Rightarrow> exn + jsval"

definition env_text :: "string option \<Rightarrow> string" where
  "env_text v = (case v of None \<Rightarrow> ''undefined'' | Some s \<Rightarrow> s)"

definition update_url :: "solr_env \<Rightarrow> string" where
  "update_url solr =
     ''http://'' @ env_text (solr_host solr) @ '':8983/solr/'' @ env_text (solr_core solr)
       @ ''/update?commit=true''"

definition index_posts :: "solr_env \<Rightarrow> jsval \<Rightarrow> sent \<times> request list" where
  "index_posts solr req_body =
     (let posts = req_body;
          rq = Request ''POST'' (update_url solr) posts
      in case axios_post solr rq of
           Inr r \<Rightarrow> (Sent 200 ''Indexed'', [rq])
         | Inl err \<Rightarrow> (Sent 500 (exn_message err), [rq]))"

text \<open>
  Express hands the body of a request to a handler in \<^verbatim>\<open>req.body\<close> only when a body
  parser (\<^verbatim>\<open>express.json()\<close> and the like) has been installed with \<^verbatim>\<open>app.use\<close>; the
  parser installed first that reads the body fills it in. Without a parser \<^verbatim>\<open>req.body\<close>
  is \<^verbatim>\<open>undefined\<close>. The file creates the app and installs none.
\<close>

type_synonym body_parser = "string \<Rightarrow> jsval option"

fun req_body_of :: "body_parser list \<Rightarrow> string \<Rightarrow> jsval" where
  "req_body_of [] raw = JUndef"
| "req_body_of (parser # rest) raw =
     (case parser raw of Some v \<Rightarrow> v | None \<Rightarrow> req_body_of rest raw)"

definition installed_parsers :: "body_parser list" where
  "installed_parsers = []"

definition api_index :: "solr_env \<Rightarrow> string \<Rightarrow> sent \<times> request list" where
  "api_index solr raw = index_posts solr (req_body_of installed_parsers raw)"

section \<open>Sample inputs\<close>

text \<open>
  Concrete requests, payloads and environments at which the theorems below are instantiated.
  The sample parser knows the body texts listed here and rejects every other text; the
  sample encoder and the sample printer of large numbers are right for the texts and the
  number used here (an address with one \<^verbatim>\<open>@\<close>, and 2^53).
\<close>

definition body_null :: string where
  \<open>body_null = ''null''\<close>

definition body_other :: string where
  \<open>body_other = ''{"type":"order_created"}''\<close>

definition payload_other :: jsval where
  "payload_other = JObj [(''type'', JStr ''order_created'')]"

definition body_no_data :: string where
  \<open>body_no_data = ''{"type":"shipment_sent"}''\<close>

definition payload_no_data :: jsval where
  "payload_no_data = JObj [(''type'', JStr ''shipment_sent'')]"

definition body_package_no_email :: string where
  \<open>body_package_no_email =
     ''{"type":"package_shipped","data":{"order":{"id":7,"recipient":{"name":"Ann"}},"shipment":{"carrier":"DHL"}}}''\<close>

definition payload_package_no_email :: jsval where
  "payload_package_no_email =
     JObj [(''type'', JStr ''package_shipped''),
           (''data'', JObj [(''order'', JObj [(''id'', JNum 7),
                                               (''recipient'', JObj [(''name'', JStr ''Ann'')])]),
                            (''shipment'', JObj [(''carrier'', JStr ''DHL'')])])]"

definition body_shipment_no_email :: string where
  \<open>body_shipment_no_email =
     ''{"type":"shipment_sent","data":{"order":{"id":7},"shipment_items":[{"quantity":2}]}}''\<close>

definition payload_shipment_no_email :: jsval where
  "payload_shipment_no_email =
     JObj [(''type'', JStr ''shipment_sent''),
           (''data'', JObj [(''order'', JObj [(''id'', JNum 7)]),
                            (''shipment_items'', JArr [JObj [(''quantity'', JNum 2)]])])]"

definition body_shipment :: string where
  \<open>body_shipment =
     ''{"type":"shipment_sent","data":{"order":{"id":7,"recipient":{"email":"ann@example.com","name":"Ann Lee"}},"shipment_items":[{"quantity":2,"order_item_name":"Mug"},{"order_item_name":"Cap"}]}}''\<close>

definition sample_items :: "jsval list" where
  "sample_items =
     [JObj [(''quantity'', JNum 2), (''order_item_name'', JStr ''Mug'')],
      JObj [(''order_item_name'', JStr ''Cap'')]]"

definition data_shipment :: jsval where
  "data_shipment =
     JObj [(''order'', JObj [(''id'', JNum 7),
                             (''recipient'', JObj [(''email'', JStr ''ann@example.com''),
                                                   (''name'', JStr ''Ann Lee'')])]),
           (''shipment_items'', JArr sample_items)]"

definition payload_shipment :: jsval where
  "payload_shipment = JObj [(''type'', JStr ''shipment_sent''), (''data'', data_shipment)]"

text \<open>A notification whose customer email is an object with a member \<^verbatim>\<open>toString\<close>.\<close>

definition body_email_object :: string where
  \<open>body_email_object =
     ''{"type":"shipment_sent","data":{"order":{"id":7,"recipient":{"email":{"toString":1},"name":"Ann Lee"}}}}''\<close>

definition email_object :: jsval where
  "email_object = JObj [(''toString'', JNum 1)]"

definition payload_email_object :: jsval where
  "payload_email_object =
     JObj [(''type'', JStr ''shipment_sent''),
           (''data'', JObj [(''order'', JObj [(''id'', JNum 7),
                              (''recipient'', JObj [(''email'', email_object),
                                                    (''name'', JStr ''Ann Lee'')])])])]"

text \<open>Two notifications whose quantities the count does not add up: 2^53 and 1, and two texts.\<close>

definition body_large :: string where
  \<open>body_large =
     ''{"type":"shipment_sent","data":{"order":{"id":7,"recipient":{"email":"ann@example.com"}},"shipment_items":[{"quantity":9007199254740992},{"quantity":1}]}}''\<close>

definition large_items :: "jsval list" where
  "large_items = [JObj [(''quantity'', JNum 9007199254740992)], JObj [(''quantity'', JNum 1)]]"

definition payload_large :: jsval where
  "payload_large =
     JObj [(''type'', JStr ''shipment_sent''),
           (''data'', JObj [(''order'', JObj [(''id'', JNum 7),
                              (''recipient'', JObj [(''email'', JStr ''ann@example.com'')])]),
                            (''shipment_items'', JArr large_items)])]"

definition body_texts :: string where
  \<open>body_texts =
     ''{"type":"shipment_sent","data":{"order":{"id":7,"recipient":{"email":"ann@example.com"}},"shipment_items":[{"quantity":"2"},{"quantity":"3"}]}}''\<close>

definition text_items :: "jsval list" where
  "text_items = [JObj [(''quantity'', JStr ''2'')], JObj [(''quantity'', JStr ''3'')]]"

definition payload_texts :: jsval where
  "payload_texts =
     JObj [(''type'', JStr ''shipment_sent''),
           (''data'', JObj [(''order'', JObj [(''id'', JNum 7),
                              (''recipient'', JObj [(''email'', JStr ''ann@example.com'')])]),
                            (''shipment_items'', JArr text_items)])]"

definition sample_parse :: "string \<Rightarrow> exn + jsval" where
  "sample_parse s =
     (if s = body_null then Inr JNull
      else if s = body_other then Inr payload_other
      else if s = body_no_data then Inr payload_no_data
      else if s = body_package_no_email then Inr payload_package_no_email
      else if s = body_shipment_no_email then Inr payload_shipment_no_email
      else if s = body_shipment then Inr payload_shipment
      else if s = body_email_object then Inr payload_email_object
      else if s = body_large then Inr payload_large
      else if s = body_texts then Inr payload_texts
      else Inl (SyntaxError ''Unexpected token''))"

definition sample_getenv :: "string \<Rightarrow> string option" where
  "sample_getenv =
     map_of [(''SENDER_GROUP_ID'', ''g1''), (''PRINTFUL_API_KEY'', ''pk''), (''SENDER_API_KEY'', ''sk'')]"

definition sample_encode :: "string \<Rightarrow> exn + string" where
  "sample_encode s = Inr (concat (map (\<lambda>c. if c = CHR ''@'' then ''%40'' else [c]) s))"

definition sample_env ::
  "(event list \<Rightarrow> request \<Rightarrow> exn + response) \<Rightarrow> (event list \<Rightarrow> exn option) \<Rightarrow> env" where
  "sample_env answer failure =
     \<lparr>getenv = sample_getenv, json_parse = sample_parse, date_parse = (\<lambda>s. None),
      encodeURIComponent = sample_encode, number_text = show_int, now_ms = 100000000,
      now_iso = ''2024-01-02T03:46:40.000Z'', net = answer, blob_error = failure\<rparr>"

definition ok_response :: response where
  "ok_response = Response 200 (Inr ''{}'') (Inr (JObj []))"

definition always_ok :: "event list \<Rightarrow> request \<Rightarrow> exn + response" where
  "always_ok h rq = Inr ok_response"

definition delete_fails :: "event list \<Rightarrow> request \<Rightarrow> exn + response" where
  "delete_fails h rq =
     (if rq_method rq = ''DELETE'' then Inl (Error ''fetch failed'') else Inr ok_response)"

definition store_up :: "event list \<Rightarrow> exn option" where
  "store_up h = None"

definition empty_world :: world where
  "empty_world = \<lparr>blobs = Map.empty, trace = []\<rparr>"

definition post :: "string \<Rightarrow> webevent" where
  "post text = \<lparr>httpMethod = ''POST'', body = text\<rparr>"

definition fields_shipment :: shipped where
  "fields_shipment =
     \<lparr>customerEmail = JStr ''ann@example.com'', customerName = JStr ''Ann Lee'',
      orderNumber = JNum 7, trackingNumber = JUndef, trackingUrl = JUndef, carrier = JUndef,
      items_shipped = ''2x Mug, 1x Cap'', items_count = JNum 2\<rparr>"



definition update_fields :: "(string \<times> jsval) list" where
  "update_fields =
     [(''order_number'', JNum 7),
      (''tracking_number'', JUndef),
      (''tracking_url'', JUndef),
      (''carrier'', JUndef),
      (''items_shipped'', JStr ''2x Mug, 1x Cap''),
      (''items_count'', JStr ''2'')]"

definition update_data :: jsval where
  "update_data =
     JObj [(''email'', JStr ''ann@example.com''), (''firstname'', JStr ''Ann''),
           (''lastname'', JStr ''Lee''),
           (''fields'', JObj (update_fields
                              @ [(''last_shipment_date'', JStr ''2024-01-02T03:46:40.000Z'')]))]"

definition update :: request where
  "update = Request ''POST'' ''https://api.sender.net/v2/subscribers'' update_data"



text \<open>
  A search index that refuses a request without a body, and a request to the endpoint that
  carries one post.
\<close>

definition sample_solr :: solr_env where
  "sample_solr =
     \<lparr>solr_host = Some ''solr'', solr_core = Some ''posts'',
      axios_post = (\<lambda>rq. if rq_data rq = JUndef
                          then Inl (Error ''Request failed with status code 400'')
                          else Inr (JObj []))\<rparr>"

definition sample_posts :: jsval where
  "sample_posts = JArr [JObj [(''id'', JNum 1), (''title'', JStr ''Hello'')]]"

definition body_posts :: string where
  \<open>body_posts = ''[{"id":1,"title":"Hello"}]''\<close>

text \<open>
  A provider that lists five orders, of which three were shipped in the last 24 hours, and an
  email service that accepts the email to one customer and refuses the email to another.
\<close>

definition order7 :: jsval where
  "order7 = JObj [(''id'', JNum 7), (''shipments'', JArr [JObj [(''shipped_at'', JNum 99000000)]])]"

definition order8 :: jsval where
  "order8 = JObj [(''id'', JNum 8), (''shipments'', JArr [JObj []]), (''updated'', JNum 5000)]"

definition order9 :: jsval where
  "order9 = JObj [(''id'', JNum 9), (''shipments'', JArr [JObj []]), (''updated'', JNum 99999999)]"

definition order10 :: jsval where
  "order10 = JObj [(''id'', JNum 10), (''shipments'', JArr [JObj [(''shipped_at'', JNum 99500000)]])]"

definition order11 :: jsval where
  "order11 = JObj [(''id'', JNum 11), (''shipments'', JArr [])]"

definition listed_orders :: "jsval list" where
  "listed_orders = [order7, order8, order9, order10, order11]"

definition orders_response :: response where
  "orders_response = Response 200 (Inr []) (Inr (JObj [(''result'', JArr listed_orders)]))"

definition detail_response :: "int \<Rightarrow> string \<Rightarrow> response" where
  "detail_response n email =
     Response 200 (Inr [])
       (Inr (JObj [(''result'',
          JObj [(''id'', JNum n),
                (''shipments'', JArr [JObj [(''tracking_number'', JStr ''T1'')]]),
                (''recipient'', JObj [(''email'', JStr email), (''name'', JStr ''Ann'')]),
                (''items'', JArr [JObj [(''name'', JStr ''Mug''), (''quantity'', JNum 1)]])])]))"

definition mail_to :: "string \<Rightarrow> jsval" where
  "mail_to email =
     JObj [(''to'', JArr [JObj [(''email'', JStr email), (''name'', JStr ''Ann'')]]),
           (''from'', JObj [(''email'', JStr ''orders@yourdomain.com''),
                            (''name'', JStr ''Your Store'')])]"

definition refused :: response where
  "refused = Response 422 (Inr []) (Inr (JObj [(''message'', JStr ''Invalid recipient'')]))"

definition not_found :: response where
  "not_found = Response 404 (Inr []) (Inl (SyntaxError ''Unexpected end of JSON input''))"

definition shop_net :: "event list \<Rightarrow> request \<Rightarrow> exn + response" where
  "shop_net h rq =
     (if rq = orders_request then Inr orders_response
      else if rq = shipment_request ''7'' then Inr (detail_response 7 ''ann@example.com'')
      else if rq = shipment_request ''10'' then Inr (detail_response 10 ''bob@example.com'')
      else if rq = send_request (mail_to ''ann@example.com'') then Inr ok_response
      else if rq = send_request (mail_to ''bob@example.com'') then Inr refused
      else Inr not_found)"

definition store_down :: "event list \<Rightarrow> exn option" where
  "store_down h = Some (Error ''blob store unavailable'')"

definition flaky :: "env \<Rightarrow> helpers" where
  "flaky env =
     (helpers_of env)\<lparr>getShipmentInfo_of :=
        (\<lambda>apiKey orderId w.
           if orderId = JNum 9 then (Inl (Error ''boom''), w)
           else getShipmentInfo env apiKey orderId w)\<rparr>"

definition events7 :: "event list" where
  "events7 =
     [BlobGet (JNum 7) (Inr None),
      Fetch (shipment_request ''7'') (Inr (detail_response 7 ''ann@example.com'')),
      Fetch (send_request (mail_to ''ann@example.com'')) (Inr ok_response),
      BlobSet (JNum 7) ''sent'' (Inr ())]"

definition events10 :: "event list" where
  "events10 =
     [BlobGet (JNum 10) (Inr None),
      Fetch (shipment_request ''10'') (Inr (detail_response 10 ''bob@example.com'')),
      Fetch (send_request (mail_to ''bob@example.com'')) (Inr refused)]"

definition world_fetched :: world where
  "world_fetched = \<lparr>blobs = Map.empty, trace = [Fetch orders_request (Inr orders_response)]\<rparr>"

definition world_done :: world where
  "world_done =
     \<lparr>blobs = [''7'' \<mapsto> ''sent''],
      trace = Fetch orders_request (Inr orders_response)
                # events7 @ [BlobGet (JNum 9) (Inr None)] @ events10\<rparr>"

definition marked :: world where
  "marked = \<lparr>blobs = [''7'' \<mapsto> ''sent''], trace = []\<rparr>"

text \<open>
  A provider that lists an order whose \<^verbatim>\<open>shipments\<close> member is a text, and one that lists
  an order whose id is an object with a member \<^verbatim>\<open>toString\<close> before an ordinary order.
\<close>

definition order12 :: jsval where
  "order12 = JObj [(''id'', JNum 12), (''shipments'', JStr ''x''), (''updated'', JNum 99999999)]"

definition text_net :: "event list \<Rightarrow> request \<Rightarrow> exn + response" where
  "text_net h rq =
     (if rq = orders_request
      then Inr (Response 200 (Inr []) (Inr (JObj [(''result'', JArr [order12])])))
      else Inr not_found)"

definition odd_id :: jsval where
  "odd_id = JObj [(''toString'', JNum 1)]"

definition order13 :: jsval where
  "order13 = JObj [(''id'', odd_id), (''shipments'', JArr [JObj [(''shipped_at'', JNum 99000000)]])]"

definition odd_response :: response where
  "odd_response = Response 200 (Inr []) (Inr (JObj [(''result'', JArr [order13, order7])]))"

definition odd_net :: "event list \<Rightarrow> request \<Rightarrow> exn + response" where
  "odd_net h rq = (if rq = orders_request then Inr odd_response else shop_net h rq)"

section \<open>Running computations\<close>

lemma io_simps:
  "io_bind (io_lift (Inr x)) f w = f x w"
  "io_bind (io_lift (Inl e)) f w = (Inl e, w)"
  "io_bind (io_ret x) f w = f x w"
  "io_bind (io_throw e) f w = (Inl e, w)"
  by (simp_all add: io_bind_def io_lift_def io_ret_def io_throw_def)


lemma lift_bind:
  "io_bind (io_lift r) f w = (case r of Inl e \<Rightarrow> (Inl e, w) | Inr x \<Rightarrow> f x w)"
  by (simp add: io_bind_def io_lift_def split: sum.splits)

lemma fetch_bind:
  "io_bind (fetch env rq) f w =
     (case net env (trace w) rq of
        Inl e \<Rightarrow> (Inl e, w\<lparr>trace := trace w @ [Fetch rq (Inl e)]\<rparr>)
      | Inr r \<Rightarrow> f r (w\<lparr>trace := trace w @ [Fetch rq (Inr r)]\<rparr>))"
  by (simp add: io_bind_def fetch_def Let_def split: sum.splits)


lemmas sample_defs =
  sample_env_def sample_parse_def sample_getenv_def always_ok_def delete_fails_def
  store_up_def empty_world_def post_def ok_response_def env_val_def
  body_null_def body_other_def body_no_data_def body_package_no_email_def
  body_shipment_no_email_def body_shipment_def body_email_object_def body_large_def
  body_texts_def
  payload_other_def payload_no_data_def payload_package_no_email_def
  payload_shipment_no_email_def payload_shipment_def data_shipment_def sample_items_def

section \<open>Reading values\<close>

lemma js_get_total: "v \<noteq> JNull \<Longrightarrow> v \<noteq> JUndef \<Longrightarrow> \<exists>x. js_get v k = Inr x"
  by (cases v) (auto split: option.splits)

lemma js_get_Inr_readable: "js_get v k = Inr x \<Longrightarrow> v \<noteq> JNull \<and> v \<noteq> JUndef"
  by (cases v) auto

lemma js_get_field: "js_get v k = Inr x \<Longrightarrow> field_of v k = x"
  by (simp add: field_of_def)

lemma field_get: "v \<noteq> JNull \<Longrightarrow> v \<noteq> JUndef \<Longrightarrow> js_get v k = Inr (field_of v k)"
  using js_get_total [of v k] by (auto simp add: field_of_def)

lemma has_text_iff: "has_text env v \<longleftrightarrow> (\<exists>s. js_to_string env v = Inr s)"
  by (simp add: has_text_def split: sum.splits)

lemma falsy_has_text: "\<not> truthy v \<Longrightarrow> has_text env v"
  by (cases v) (simp_all add: has_text_def)

lemma has_text_or:
  assumes "has_text env d"
  shows "has_text env (js_or v d) \<longleftrightarrow> has_text env v"
  using assms falsy_has_text [of v env] by (auto simp add: js_or_def)

lemma primitive_has_text:
  assumes "to_primitive env v = Inr p"
  shows "to_primitive env p = Inr p" and "\<exists>s. js_to_string env p = Inr s"
  using assms
  by (cases v; auto simp add: to_primitive_def ex_bind_def split: sum.splits)+

lemma to_primitive_text: "(\<exists>p. to_primitive env v = Inr p) \<longleftrightarrow> has_text env v"
  by (cases v) (auto simp add: to_primitive_def ex_bind_def has_text_def split: sum.splits)

lemma js_plus_primitive:
  assumes "to_primitive env a = Inr a" and "has_text env b"
  shows "\<exists>c. js_plus env a b = Inr c \<and> to_primitive env c = Inr c"
proof -
  obtain pb where pb: "to_primitive env b = Inr pb"
    using assms(2) to_primitive_text by blast
  obtain sa sb where s: "js_to_string env a = Inr sa" "js_to_string env pb = Inr sb"
    using primitive_has_text(2) [OF assms(1)] primitive_has_text(2) [OF pb] by blast
  have "to_primitive env (add_numbers x y) = Inr (add_numbers x y)" for x y
    by (cases "(x, y)" rule: add_numbers.cases) (simp_all add: to_primitive_def to_double_def Let_def)
  then show ?thesis
    using assms(1) pb s by (simp add: js_plus_def ex_bind_def to_primitive_def)
qed

lemma js_plus_throws:
  assumes "\<not> has_text env b"
  shows "\<exists>e. js_plus env a b = Inl e"
proof -
  obtain e where "to_primitive env b = Inl e"
    using assms to_primitive_text [of env b] by (cases "to_primitive env b") auto
  then show ?thesis
    by (simp add: js_plus_def ex_bind_def split: sum.splits)
qed

lemma ex_map_total:
  "list_all (\<lambda>x. \<exists>y. f x = Inr y) xs \<Longrightarrow> \<exists>ys. ex_map f xs = Inr ys"
  by (induction xs) (auto simp add: ex_bind_def)

lemma ex_map_Inr:
  "ex_map f xs = Inr ys \<Longrightarrow> list_all (\<lambda>x. \<exists>y. f x = Inr y) xs"
  by (induction xs arbitrary: ys) (auto simp add: ex_bind_def split: sum.splits)

section \<open>Properties of the webhook handlers\<close>

text \<open>
  C5. A request whose method is not POST is answered by each of the three variants with
  status 405 and the error object \<^verbatim>\<open>{error: 'Method not allowed'}\<close>; the answer is the same
  whatever the body is and whatever the parser or the network would do, and the trace of
  outbound calls is left as it was.
\<close>

theorem non_post_rejected:
  assumes "httpMethod ev \<noteq> ''POST''"
  shows "handler1 env ev w = (Reply 405 (JObj [(''error'', JStr ''Method not allowed'')]), w)
       \<and> handler2 env ev w = (Reply 405 (JObj [(''error'', JStr ''Method not allowed'')]), w)
       \<and> handler3 env ev w = (Reply 405 (JObj [(''error'', JStr ''Method not allowed'')]), w)"
  using assms by (simp add: handler1_def handler2_def handler3_def method_not_allowed_def)

theorem non_post_rejected_witness:
  "httpMethod \<lparr>httpMethod = ''GET'', body = body_shipment\<rparr> \<noteq> ''POST''
   \<and> handler1 (sample_env always_ok store_up) \<lparr>httpMethod = ''GET'', body = body_shipment\<rparr> empty_world
       = (Reply 405 (JObj [(''error'', JStr ''Method not allowed'')]), empty_world)
   \<and> handler2 (sample_env always_ok store_up) \<lparr>httpMethod = ''GET'', body = body_shipment\<rparr> empty_world
       = (Reply 405 (JObj [(''error'', JStr ''Method not allowed'')]), empty_world)
   \<and> handler3 (sample_env always_ok store_up) \<lparr>httpMethod = ''GET'', body = body_shipment\<rparr> empty_world
       = (Reply 405 (JObj [(''error'', JStr ''Method not allowed'')]), empty_world)"
  using non_post_rejected [of "\<lparr>httpMethod = ''GET'', body = body_shipment\<rparr>"
      "sample_env always_ok store_up" empty_world]
  by simp

text \<open>
  C6, as amended. A POST request whose body parses to a value from which the \<^verbatim>\<open>type\<close>
  member can be read (any JSON value but \<^verbatim>\<open>null\<close>), and whose \<^verbatim>\<open>type\<close> is not the handled
  one, is answered with status 200 and the message \<^verbatim>\<open>Event type not handled\<close>, and no
  outbound call is made: the handled type is \<^verbatim>\<open>package_shipped\<close> for variant 1 and
  \<^verbatim>\<open>shipment_sent\<close> for variants 2 and 3.
\<close>

theorem unhandled_type_ignored:
  assumes "httpMethod ev = ''POST''"
    and "json_parse env (body ev) = Inr payload"
    and "js_get payload ''type'' = Inr ty"
  shows "(ty \<noteq> JStr ''package_shipped'' \<longrightarrow>
            handler1 env ev w = (Reply 200 (JObj [(''message'', JStr ''Event type not handled'')]), w))
       \<and> (ty \<noteq> JStr ''shipment_sent'' \<longrightarrow>
            handler2 env ev w = (Reply 200 (JObj [(''message'', JStr ''Event type not handled'')]), w)
          \<and> handler3 env ev w = (Reply 200 (JObj [(''message'', JStr ''Event type not handled'')]), w))"
  using assms
  by (simp add: handler1_def handler2_def handler3_def handler1_try_def handler2_try_def
      handler3_try_def io_simps not_handled_def io_ret_def)

theorem unhandled_type_ignored_witness:
  "httpMethod (post body_other) = ''POST''
   \<and> json_parse (sample_env always_ok store_up) (body (post body_other)) = Inr payload_other
   \<and> js_get payload_other ''type'' = Inr (JStr ''order_created'')
   \<and> handler1 (sample_env always_ok store_up) (post body_other) empty_world
       = (Reply 200 (JObj [(''message'', JStr ''Event type not handled'')]), empty_world)
   \<and> handler2 (sample_env always_ok store_up) (post body_other) empty_world
       = (Reply 200 (JObj [(''message'', JStr ''Event type not handled'')]), empty_world)
   \<and> handler3 (sample_env always_ok store_up) (post body_other) empty_world
       = (Reply 200 (JObj [(''message'', JStr ''Event type not handled'')]), empty_world)"
proof -
  have m: "httpMethod (post body_other) = ''POST''"
    by (simp add: post_def)
  have p: "json_parse (sample_env always_ok store_up) (body (post body_other)) = Inr payload_other"
    by (simp add: sample_defs)
  have t: "js_get payload_other ''type'' = Inr (JStr ''order_created'')"
    by (simp add: payload_other_def)
  show ?thesis
    using m p t unhandled_type_ignored [OF m p t, of empty_world] by simp
qed

text \<open>
  The claim as stated fails at the body \<^verbatim>\<open>null\<close>: it parses, it carries no handled type,
  and reading its \<^verbatim>\<open>type\<close> throws, so that each variant answers 500.
\<close>

theorem null_body_counterexample:
  "httpMethod (post body_null) = ''POST''
   \<and> json_parse (sample_env always_ok store_up) (body (post body_null)) = Inr JNull
   \<and> JNull \<noteq> JStr ''package_shipped''
   \<and> statusCode (fst (handler1 (sample_env always_ok store_up) (post body_null) empty_world)) = 500
   \<and> JNull \<noteq> JStr ''shipment_sent''
   \<and> statusCode (fst (handler2 (sample_env always_ok store_up) (post body_null) empty_world)) = 500
   \<and> statusCode (fst (handler3 (sample_env always_ok store_up) (post body_null) empty_world)) = 500"
  by (simp add: sample_defs handler1_def handler1_try_def handler2_def handler2_try_def
      handler3_def handler3_try_def io_simps failed_webhook_def)

subsection \<open>When the fields of a notification can be read\<close>

lemma item_label_readable:
  "(\<exists>s. item_label env item = Inr s) \<longleftrightarrow> readable_item env item"
proof (cases "item = JNull \<or> item = JUndef")
  case True
  then show ?thesis
    by (auto simp add: item_label_def readable_item_def ex_bind_def)
next
  case False
  then have g: "js_get item ''quantity'' = Inr (field_of item ''quantity'')"
    "js_get item ''order_item_name'' = Inr (field_of item ''order_item_name'')"
    by (simp_all add: field_get)
  have q: "has_text env (js_or (field_of item ''quantity'') (JNum 1))
             \<longleftrightarrow> has_text env (field_of item ''quantity'')"
    by (rule has_text_or) (simp add: has_text_def)
  have n: "has_text env (js_or (field_of item ''order_item_name'') (JStr ''Item''))
             \<longleftrightarrow> has_text env (field_of item ''order_item_name'')"
    by (rule has_text_or) (simp add: has_text_def)
  show ?thesis
    using False g q n
    by (auto simp add: item_label_def readable_item_def ex_bind_def has_text_iff
        split: sum.splits)
qed

lemma itemsList_readable:
  "(\<exists>s. itemsList env items = Inr s) \<longleftrightarrow> list_all (readable_item env) items"
proof
  assume "\<exists>s. itemsList env items = Inr s"
  then obtain labels where "ex_map (item_label env) items = Inr labels"
    by (auto simp add: itemsList_def ex_bind_def split: sum.splits)
  then have "list_all (\<lambda>x. \<exists>y. item_label env x = Inr y) items"
    by (rule ex_map_Inr)
  then show "list_all (readable_item env) items"
    by (simp add: item_label_readable)
next
  assume "list_all (readable_item env) items"
  then have "list_all (\<lambda>x. \<exists>y. item_label env x = Inr y) items"
    by (simp add: item_label_readable)
  then obtain labels where "ex_map (item_label env) items = Inr labels"
    using ex_map_total by blast
  then show "\<exists>s. itemsList env items = Inr s"
    by (simp add: itemsList_def ex_bind_def)
qed

lemma itemsCount_readable:
  assumes "list_all (readable_item env) items" and "to_primitive env acc = Inr acc"
  shows "\<exists>c. itemsCount env acc items = Inr c \<and> to_primitive env c = Inr c"
  using assms
proof (induction items arbitrary: acc)
  case Nil
  then show ?case
    by simp
next
  case (Cons item rest)
  then have r: "readable_item env item" and rest: "list_all (readable_item env) rest"
    by simp_all
  have g: "js_get item ''quantity'' = Inr (field_of item ''quantity'')"
    using r by (simp add: readable_item_def field_get)
  have "has_text env (js_or (field_of item ''quantity'') (JNum 0))
          \<longleftrightarrow> has_text env (field_of item ''quantity'')"
    by (rule has_text_or) (simp add: has_text_def)
  then have "has_text env (js_or (field_of item ''quantity'') (JNum 0))"
    using r by (simp add: readable_item_def)
  then obtain c where c: "js_plus env acc (js_or (field_of item ''quantity'') (JNum 0)) = Inr c"
    and p: "to_primitive env c = Inr c"
    using js_plus_primitive [OF Cons.prems(2)] by blast
  show ?case
    using g c Cons.IH [OF rest p] by (simp add: ex_bind_def)
qed

lemma fields_readable:
  "(\<exists>f. shipment_fields env payload = Inr f) \<longleftrightarrow> readable_shipment env payload"
proof (cases "js_get payload ''data''")
  case (Inl e)
  then show ?thesis
    by (simp add: shipment_fields_def readable_shipment_def ex_bind_def)
next
  case (Inr shipment)
  show ?thesis
  proof (cases "shipment = JNull \<or> shipment = JUndef")
    case True
    then show ?thesis
      using Inr by (auto simp add: shipment_fields_def readable_shipment_def ex_bind_def)
  next
    case False
    then have s: "js_get shipment k = Inr (field_of shipment k)" for k
      by (simp add: field_get)
    define order where "order = js_or (field_of shipment ''order'') (JObj [])"
    have "order \<noteq> JNull \<and> order \<noteq> JUndef"
      unfolding order_def js_or_def by (cases "field_of shipment ''order''") auto
    then have o: "js_get order k = Inr (field_of order k)" for k
      by (simp add: field_get)
    have opt: "\<exists>x. js_get_opt v k = Inr x" for v k
      using js_get_total [of v k] by (auto simp add: js_get_opt_def)
    obtain email name where e: "js_get_opt (field_of order ''recipient'') ''email'' = Inr email"
      and n: "js_get_opt (field_of order ''recipient'') ''name'' = Inr name"
      using opt by blast
    define items where "items = field_of shipment ''shipment_items''"
    have run: "shipment_fields env payload =
       ex_bind (js_array ''shippedItems.map'' (js_or items (JArr []))) (\<lambda>shippedItems.
       ex_bind (itemsList env shippedItems) (\<lambda>list.
       ex_bind (itemsCount env (JNum 0) shippedItems) (\<lambda>count.
       Inr \<lparr>customerEmail = email, customerName = name,
            orderNumber = js_or (field_of order ''external_id'') (field_of order ''id''),
            trackingNumber = field_of shipment ''tracking_number'',
            trackingUrl = field_of shipment ''tracking_url'',
            carrier = field_of shipment ''carrier'', items_shipped = list,
            items_count = count\<rparr>)))"
      using Inr s o e n
      by (simp add: shipment_fields_def ex_bind_def Let_def order_def [symmetric] items_def)
    have zero: "to_primitive env (JNum 0) = Inr (JNum 0)"
      by (simp add: to_primitive_def)
    have list: "(\<exists>f. shipment_fields env payload = Inr f) \<longleftrightarrow> list_all (readable_item env) xs"
      if "js_array ''shippedItems.map'' (js_or items (JArr [])) = Inr xs" for xs
    proof
      assume "\<exists>f. shipment_fields env payload = Inr f"
      then have "\<exists>l. itemsList env xs = Inr l"
        using that by (auto simp add: run ex_bind_def split: sum.splits)
      then show "list_all (readable_item env) xs"
        by (simp add: itemsList_readable)
    next
      assume a: "list_all (readable_item env) xs"
      then obtain l where "itemsList env xs = Inr l"
        using itemsList_readable by blast
      moreover obtain c where "itemsCount env (JNum 0) xs = Inr c"
        using itemsCount_readable [OF a zero] by blast
      ultimately show "\<exists>f. shipment_fields env payload = Inr f"
        using that by (simp add: run ex_bind_def)
    qed
    show ?thesis
    proof (cases "truthy items")
      case falsy: False
      then have "js_array ''shippedItems.map'' (js_or items (JArr [])) = Inr []"
        by (simp add: js_or_def js_array_def)
      from list [OF this] falsy show ?thesis
        using Inr False by (cases items) (simp_all add: readable_shipment_def items_def)
    next
      case True
      show ?thesis
      proof (cases "\<exists>xs. items = JArr xs")
        case array: True
        then obtain xs where xs: "items = JArr xs"
          by blast
        then have "js_array ''shippedItems.map'' (js_or items (JArr [])) = Inr xs"
          by (simp add: js_or_def js_array_def)
        from list [OF this] show ?thesis
          using Inr False xs by (simp add: readable_shipment_def items_def)
      next
        case other: False
        then have "\<exists>e. js_array ''shippedItems.map'' (js_or items (JArr [])) = Inl e"
          using True by (cases items) (simp_all add: js_or_def js_array_def)
        then have "\<not> (\<exists>f. shipment_fields env payload = Inr f)"
          by (auto simp add: run ex_bind_def)
        moreover have "\<not> readable_shipment env payload"
          using Inr True other by (cases items) (simp_all add: readable_shipment_def items_def)
        ultimately show ?thesis
          by simp
      qed
    qed
  qed
qed

lemma fields_email:
  assumes "shipment_fields env payload = Inr f"
  shows "customerEmail f = customer_email payload"
proof -
  obtain shipment where d: "js_get payload ''data'' = Inr shipment"
    using assms by (auto simp add: shipment_fields_def ex_bind_def split: sum.splits)
  obtain so where so: "js_get shipment ''order'' = Inr so"
    using assms d by (auto simp add: shipment_fields_def ex_bind_def split: sum.splits)
  obtain recipient where r: "js_get (js_or so (JObj [])) ''recipient'' = Inr recipient"
    using assms d so by (auto simp add: shipment_fields_def ex_bind_def Let_def split: sum.splits)
  have "js_get_opt recipient ''email'' = Inr (field_of recipient ''email'')"
    using js_get_total [of recipient "''email''"]
    by (cases recipient) (auto simp add: js_get_opt_def field_of_def)
  then have "customerEmail f = field_of recipient ''email''"
    using assms d so r
    by (auto simp add: shipment_fields_def ex_bind_def Let_def split: sum.splits)
  then show ?thesis
    using d so r by (simp add: customer_email_def field_of_def)
qed

lemma handler1_never_400: "statusCode (fst (handler1 env ev w)) \<noteq> 400"
  by (auto simp add: handler1_def handler1_try_def method_not_allowed_def not_handled_def
      failed_webhook_def io_bind_def io_lift_def io_ret_def io_throw_def fetch_def Let_def
      split: sum.splits prod.splits if_splits)

text \<open>
  C4, as amended. Variants 2 and 3 answer a POST request of type \<^verbatim>\<open>shipment_sent\<close> with
  status 400, and make no outbound call, when the fields of the notification can be read
  (\<^verbatim>\<open>data\<close> is present, and \<^verbatim>\<open>shipment_items\<close> is falsy or an array of entries, none
  \<^verbatim>\<open>null\<close>, whose quantity and name have a text) and the customer email is missing or
  otherwise falsy.
\<close>

theorem missing_email_rejected:
  assumes "httpMethod ev = ''POST''"
    and "json_parse env (body ev) = Inr payload"
    and "js_get payload ''type'' = Inr (JStr ''shipment_sent'')"
    and "readable_shipment env payload"
    and "\<not> truthy (customer_email payload)"
  shows "handler2 env ev w = (Reply 400 (JObj [(''error'', JStr ''No customer email in payload'')]), w)
       \<and> handler3 env ev w = (Reply 400 (JObj [(''error'', JStr ''No customer email in payload'')]), w)"
proof -
  obtain f where f: "shipment_fields env payload = Inr f"
    using assms(4) fields_readable by blast
  then have "\<not> truthy (customerEmail f)"
    using assms(5) fields_email by simp
  then show ?thesis
    using assms(1-3) f
    by (simp add: handler2_def handler3_def handler2_try_def handler3_try_def io_simps
        no_customer_email_def io_ret_def)
qed

theorem missing_email_rejected_witness:
  "httpMethod (post body_shipment_no_email) = ''POST''
   \<and> js_get payload_shipment_no_email ''type'' = Inr (JStr ''shipment_sent'')
   \<and> readable_shipment (sample_env always_ok store_up) payload_shipment_no_email
   \<and> customer_email payload_shipment_no_email = JUndef
   \<and> handler2 (sample_env always_ok store_up) (post body_shipment_no_email) empty_world
       = (Reply 400 (JObj [(''error'', JStr ''No customer email in payload'')]), empty_world)
   \<and> handler3 (sample_env always_ok store_up) (post body_shipment_no_email) empty_world
       = (Reply 400 (JObj [(''error'', JStr ''No customer email in payload'')]), empty_world)"
proof -
  let ?E = "sample_env always_ok store_up"
  have m: "httpMethod (post body_shipment_no_email) = ''POST''"
    by (simp add: post_def)
  have p: "json_parse ?E (body (post body_shipment_no_email)) = Inr payload_shipment_no_email"
    by (simp add: sample_defs)
  have t: "js_get payload_shipment_no_email ''type'' = Inr (JStr ''shipment_sent'')"
    by (simp add: payload_shipment_no_email_def)
  have r: "readable_shipment ?E payload_shipment_no_email"
    by (simp add: payload_shipment_no_email_def readable_shipment_def readable_item_def
        field_of_def has_text_def)
  have c: "customer_email payload_shipment_no_email = JUndef"
    by (simp add: payload_shipment_no_email_def customer_email_def field_of_def js_or_def)
  have e: "\<not> truthy (customer_email payload_shipment_no_email)"
    by (simp add: c)
  show ?thesis
    using m t r c missing_email_rejected [OF m p t r e, of empty_world] by simp
qed

text \<open>
  The claim as stated fails in two ways. A notification of the handled type without a
  \<^verbatim>\<open>data\<close> member carries no customer email, and variants 2 and 3 answer 500, because
  reading \<^verbatim>\<open>shipment.order\<close> throws before the email is tested. Variant 1 tests nothing: on
  a \<^verbatim>\<open>package_shipped\<close> notification whose recipient has no email it posts the email with
  an undefined address and, when the email service accepts the request, answers 200.
\<close>

theorem missing_email_counterexample:
  "httpMethod (post body_no_data) = ''POST''
   \<and> json_parse (sample_env always_ok store_up) (body (post body_no_data)) = Inr payload_no_data
   \<and> js_get payload_no_data ''type'' = Inr (JStr ''shipment_sent'')
   \<and> statusCode (fst (handler2 (sample_env always_ok store_up) (post body_no_data) empty_world)) = 500
   \<and> statusCode (fst (handler3 (sample_env always_ok store_up) (post body_no_data) empty_world)) = 500
   \<and> json_parse (sample_env always_ok store_up) (body (post body_package_no_email))
        = Inr payload_package_no_email
   \<and> js_get payload_package_no_email ''type'' = Inr (JStr ''package_shipped'')
   \<and> handler1 (sample_env always_ok store_up) (post body_package_no_email) empty_world
        = (Reply 200 (JObj [(''success'', JBool True),
                            (''message'', JStr ''Email sent successfully''),
                            (''orderId'', JNum 7)]),
           \<lparr>blobs = Map.empty,
            trace = [Fetch (Request ''POST'' ''https://api.sender.net/v2/email''
                       (JObj [(''to'', JArr [JObj [(''email'', JUndef), (''name'', JStr ''Ann'')]]),
                              (''from'', JObj [(''email'', JUndef), (''name'', JStr ''Your Store'')])]))
                     (Inr ok_response)]\<rparr>)"
  by (simp add: sample_defs handler1_def handler1_try_def handler2_def handler2_try_def
      handler3_def handler3_try_def io_simps fetch_bind failed_webhook_def shipment_fields_def
      ex_bind_def emailData1_def js_or_def resp_ok_def io_ret_def template_def
      number_string_def)

subsection \<open>The steps of variant 2\<close>





lemma fields_of_payload_shipment:
  "shipment_fields (sample_env answer failure) payload_shipment = Inr fields_shipment"
  by (simp add: payload_shipment_def data_shipment_def sample_items_def fields_shipment_def
      shipment_fields_def ex_bind_def js_or_def js_get_opt_def js_array_def itemsList_def
      item_label_def js_plus_def to_primitive_def to_double_def round_nat_def
      number_string_def show_int_def show_nat.simps)

lemma data_of_fields_shipment:
  "subscriberData (sample_env answer failure) fields_shipment = Inr update_data"
  by (simp add: subscriberData_def firstname_def lastname_def tracking_fields_def
      js_toString_def fields_shipment_def update_data_def update_fields_def ex_bind_def
      number_string_def show_int_def show_nat.simps sample_env_def)



subsection \<open>The count and the list of the shipped items\<close>

lemma to_double_small:
  assumes "\<bar>i\<bar> < 9007199254740992"
  shows "to_double i = JNum i"
proof -
  have "nat \<bar>i\<bar> < 9007199254740992"
    using assms by simp
  then have "round_nat (nat \<bar>i\<bar>) = nat \<bar>i\<bar>"
    by (simp add: round_nat_def)
  moreover have "nat \<bar>i\<bar> < 2 ^ 1024"
    using \<open>nat \<bar>i\<bar> < 9007199254740992\<close> by simp
  ultimately show ?thesis
    by (simp add: to_double_def Let_def)
qed

lemma plain_item_get:
  assumes "plain_item env item"
  shows "js_get item ''quantity'' = Inr (field_of item ''quantity'')"
    and "js_get item ''order_item_name'' = Inr (field_of item ''order_item_name'')"
proof -
  have "item \<noteq> JNull \<and> item \<noteq> JUndef"
    using assms by (auto simp add: plain_item_def)
  then show "js_get item ''quantity'' = Inr (field_of item ''quantity'')"
    and "js_get item ''order_item_name'' = Inr (field_of item ''order_item_name'')"
    by (simp_all add: field_get)
qed

lemma plain_item_count:
  assumes "plain_item env item" and "\<bar>a\<bar> + \<bar>counted_quantity item\<bar> < 9007199254740992"
  shows "js_plus env (JNum a) (js_or (field_of item ''quantity'') (JNum 0))
           = Inr (JNum (a + counted_quantity item))"
proof -
  have "\<bar>a + counted_quantity item\<bar> < 9007199254740992" "\<bar>a\<bar> < 9007199254740992"
    using assms(2) by linarith+
  then have "to_double (a + counted_quantity item) = JNum (a + counted_quantity item)"
    "to_double a = JNum a" "to_double (a + 0) = JNum a"
    by (simp_all add: to_double_small)
  then show ?thesis
    using assms(1) plain_item_get(1) [OF assms(1)]
    by (cases "field_of item ''quantity''")
      (auto simp add: plain_item_def counted_quantity_def quantity_of_def js_plus_def js_or_def
        to_primitive_def ex_bind_def)
qed

lemma plain_item_listed:
  assumes "plain_item env item" and "\<bar>counted_quantity item\<bar> < 9007199254740992"
  shows "js_to_string env (js_or (field_of item ''quantity'') (JNum 1))
           = Inr (show_int (listed_quantity item))"
  using assms plain_item_get(1) [OF assms(1)]
  by (cases "field_of item ''quantity''")
    (auto simp add: plain_item_def counted_quantity_def listed_quantity_def quantity_of_def
      js_or_def number_string_def)

lemma itemsCount_plain:
  assumes "list_all (plain_item env) items"
    and "\<bar>a\<bar> + sum_list (map (\<lambda>item. \<bar>counted_quantity item\<bar>) items) < 9007199254740992"
  shows "itemsCount env (JNum a) items = Inr (JNum (a + sum_list (map counted_quantity items)))"
  using assms
proof (induction items arbitrary: a)
  case Nil
  then show ?case by simp
next
  case (Cons item rest)
  from Cons.prems have p: "plain_item env item" and rest: "list_all (plain_item env) rest"
    by simp_all
  have nonneg: "0 \<le> sum_list (map (\<lambda>item. \<bar>counted_quantity item\<bar>) rest)"
    by (rule sum_list_nonneg) auto
  have one: "\<bar>a\<bar> + \<bar>counted_quantity item\<bar> < 9007199254740992"
    using Cons.prems(2) nonneg by simp
  have more: "\<bar>a + counted_quantity item\<bar>
                + sum_list (map (\<lambda>item. \<bar>counted_quantity item\<bar>) rest) < 9007199254740992"
    using Cons.prems(2) by simp
  show ?case
    using plain_item_get(1) [OF p] plain_item_count [OF p one] Cons.IH [OF rest more]
    by (simp add: ex_bind_def add.assoc)
qed

lemma item_label_plain:
  assumes "plain_item env item" and "\<bar>counted_quantity item\<bar> < 9007199254740992"
  shows "item_label env item
           = Inr (show_int (listed_quantity item) @ ''x '' @ listed_name env item)"
proof -
  have "has_text env (js_or (field_of item ''order_item_name'') (JStr ''Item''))"
    using assms(1) has_text_or [of env "JStr ''Item''" "field_of item ''order_item_name''"]
    by (simp add: plain_item_def has_text_def)
  then obtain s where "js_to_string env (js_or (field_of item ''order_item_name'') (JStr ''Item''))
                         = Inr s"
    using has_text_iff by blast
  then show ?thesis
    using plain_item_get [OF assms(1)] plain_item_listed [OF assms]
    by (simp add: item_label_def ex_bind_def listed_name_def)
qed

lemma ex_map_plain:
  assumes "list_all (plain_item env) items"
    and "sum_list (map (\<lambda>item. \<bar>counted_quantity item\<bar>) items) < 9007199254740992"
  shows "ex_map (item_label env) items =
       Inr (map (\<lambda>item. show_int (listed_quantity item) @ ''x '' @ listed_name env item) items)"
  using assms
proof (induction items)
  case Nil
  then show ?case by simp
next
  case (Cons item rest)
  from Cons.prems have p: "plain_item env item" and rest: "list_all (plain_item env) rest"
    by simp_all
  have nonneg: "0 \<le> sum_list (map (\<lambda>item. \<bar>counted_quantity item\<bar>) rest)"
    by (rule sum_list_nonneg) auto
  have one: "\<bar>counted_quantity item\<bar> < 9007199254740992"
    using Cons.prems(2) nonneg by simp
  have more: "sum_list (map (\<lambda>item. \<bar>counted_quantity item\<bar>) rest) < 9007199254740992"
    using Cons.prems(2) by simp
  show ?case
    using item_label_plain [OF p one] Cons.IH [OF rest more] by (simp add: ex_bind_def)
qed

lemma shipment_fields_items:
  assumes "shipment_fields env payload = Inr f"
    and "js_get payload ''data'' = Inr shipment"
    and "js_get shipment ''shipment_items'' = Inr (JArr items)"
  shows "itemsList env items = Inr (items_shipped f)
       \<and> itemsCount env (JNum 0) items = Inr (items_count f)"
  using assms
  by (auto simp add: shipment_fields_def ex_bind_def js_or_def js_array_def Let_def
      split: sum.splits)

text \<open>
  C10, as amended. In variants 2 and 3, for a list of shipped items that are plain (the
  quantity is missing, \<^verbatim>\<open>null\<close> or a whole number, the name has a text) and whose
  quantities are small (their absolute values add up to less than 2^53), the count is the
  sum of the quantities, a missing quantity counting 0, and the \<^verbatim>\<open>items_count\<close> field
  of every subscriber request is its decimal text, while \<^verbatim>\<open>items_shipped\<close> lists each
  item as \<^verbatim>\<open>quantity x name\<close> with a missing quantity shown as 1. An item without a
  quantity is therefore listed as \<^verbatim>\<open>1x\<close> and adds nothing to the count.
\<close>

theorem items_count_and_list:
  fixes env payload f items
  defines "amount \<equiv> sum_list (map counted_quantity items)"
  assumes "shipment_fields env payload = Inr f"
    and "js_get payload ''data'' = Inr shipment"
    and "js_get shipment ''shipment_items'' = Inr (JArr items)"
    and "list_all (plain_item env) items"
    and "small_quantities items"
  shows "items_count f = JNum amount
       \<and> items_shipped f =
           join_with '', ''
             (map (\<lambda>item. show_int (listed_quantity item) @ ''x '' @ listed_name env item) items)
       \<and> tracking_fields env f =
           Inr [(''order_number'', orderNumber f),
                (''tracking_number'', trackingNumber f),
                (''tracking_url'', trackingUrl f),
                (''carrier'', carrier f),
                (''items_shipped'', JStr (items_shipped f)),
                (''items_count'', JStr (show_int amount))]
       \<and> (\<forall>data. subscriberData env f = Inr data \<longrightarrow>
             request_field (update_request data) ''items_count'' = Inr (JStr (show_int amount))
           \<and> request_field (update_request data) ''items_shipped'' = Inr (JStr (items_shipped f)))
       \<and> (\<forall>data. create_data env f g = Inr data \<longrightarrow>
             request_field (create_request data) ''items_count'' = Inr (JStr (show_int amount))
           \<and> request_field (create_request data) ''items_shipped'' = Inr (JStr (items_shipped f)))
       \<and> (\<forall>data. patch_data env f g = Inr data \<longrightarrow>
             request_field (patch_request data) ''items_count'' = Inr (JStr (show_int amount))
           \<and> request_field (patch_request data) ''items_shipped'' = Inr (JStr (items_shipped f)))"
proof -
  have small: "sum_list (map (\<lambda>item. \<bar>counted_quantity item\<bar>) items) < 9007199254740992"
    using assms(6) by (simp add: small_quantities_def)
  have "\<bar>sum_list (map counted_quantity items)\<bar>
          \<le> sum_list (map (\<lambda>item. \<bar>counted_quantity item\<bar>) items)"
    by (induction items) auto
  then have bound: "\<bar>amount\<bar> < 9007199254740992"
    using small by (simp add: amount_def)
  have c: "items_count f = JNum amount"
    using shipment_fields_items [OF assms(2-4)] itemsCount_plain [OF assms(5), of 0] small
    by (simp add: amount_def)
  have l: "items_shipped f =
           join_with '', ''
             (map (\<lambda>item. show_int (listed_quantity item) @ ''x '' @ listed_name env item) items)"
    using shipment_fields_items [OF assms(2-4)] ex_map_plain [OF assms(5) small]
    by (simp add: itemsList_def ex_bind_def)
  have t: "tracking_fields env f =
           Inr [(''order_number'', orderNumber f),
                (''tracking_number'', trackingNumber f),
                (''tracking_url'', trackingUrl f),
                (''carrier'', carrier f),
                (''items_shipped'', JStr (items_shipped f)),
                (''items_count'', JStr (show_int amount))]"
    using c bound by (simp add: tracking_fields_def js_toString_def ex_bind_def number_string_def)
  have u: "request_field (update_request data) ''items_count'' = Inr (JStr (show_int amount))
         \<and> request_field (update_request data) ''items_shipped'' = Inr (JStr (items_shipped f))"
    if "subscriberData env f = Inr data" for data
    using that t
    by (auto simp add: subscriberData_def request_field_def update_request_def ex_bind_def
        split: sum.splits)
  have k: "request_field (create_request data) ''items_count'' = Inr (JStr (show_int amount))
         \<and> request_field (create_request data) ''items_shipped'' = Inr (JStr (items_shipped f))"
    if "create_data env f g = Inr data" for data
    using that t
    by (auto simp add: create_data_def request_field_def create_request_def ex_bind_def
        split: sum.splits)
  have p: "request_field (patch_request data) ''items_count'' = Inr (JStr (show_int amount))
         \<and> request_field (patch_request data) ''items_shipped'' = Inr (JStr (items_shipped f))"
    if "patch_data env f g = Inr data" for data
    using that t
    by (auto simp add: patch_data_def request_field_def patch_request_def ex_bind_def
        split: sum.splits)
  show ?thesis
    using c l t u k p by blast
qed

theorem items_count_and_list_witness:
  "shipment_fields (sample_env always_ok store_up) payload_shipment = Inr fields_shipment
   \<and> js_get payload_shipment ''data'' = Inr data_shipment
   \<and> js_get data_shipment ''shipment_items'' = Inr (JArr sample_items)
   \<and> list_all (plain_item (sample_env always_ok store_up)) sample_items
   \<and> small_quantities sample_items
   \<and> map quantity_of sample_items = [Some 2, None]
   \<and> items_count fields_shipment = JNum 2
   \<and> items_shipped fields_shipment = ''2x Mug, 1x Cap''
   \<and> subscriberData (sample_env always_ok store_up) fields_shipment = Inr update_data
   \<and> request_field update ''items_count'' = Inr (JStr ''2'')
   \<and> request_field update ''items_shipped'' = Inr (JStr ''2x Mug, 1x Cap'')"
proof -
  let ?E = "sample_env always_ok store_up"
  have d: "js_get payload_shipment ''data'' = Inr data_shipment"
    by (simp add: payload_shipment_def)
  have i: "js_get data_shipment ''shipment_items'' = Inr (JArr sample_items)"
    by (simp add: data_shipment_def)
  have q: "map quantity_of sample_items = [Some 2, None]"
    by (simp add: sample_items_def quantity_of_def)
  have a: "list_all (plain_item ?E) sample_items"
    by (simp add: sample_items_def plain_item_def field_of_def has_text_def)
  have b: "small_quantities sample_items"
    by (simp add: small_quantities_def sample_items_def counted_quantity_def quantity_of_def)
  have s: "sum_list (map counted_quantity sample_items) = 2"
    by (simp add: sample_items_def counted_quantity_def quantity_of_def)
  have two: "show_int 2 = ''2''"
    by (simp add: show_int_def show_nat.simps)
  note claim = items_count_and_list [OF fields_of_payload_shipment [of always_ok store_up] d i a b]
  have c: "items_count fields_shipment = JNum 2"
    using claim s by simp
  have l: "items_shipped fields_shipment = ''2x Mug, 1x Cap''"
    by (simp add: fields_shipment_def)
  have r: "request_field update ''items_count'' = Inr (JStr ''2'')"
    "request_field update ''items_shipped'' = Inr (JStr ''2x Mug, 1x Cap'')"
    using claim data_of_fields_shipment [of always_ok store_up] s two l
    by (simp_all add: update_def update_request_def)
  show ?thesis
    using d i q a b fields_of_payload_shipment c l r data_of_fields_shipment by simp
qed

text \<open>
  The claim as stated fails in two ways. The count is a sum of doubles: for the quantities
  2^53 and 1 it is 2^53, one less than their sum. And \<^verbatim>\<open>+\<close> joins texts: for the
  quantities \<^verbatim>\<open>"2"\<close> and \<^verbatim>\<open>"3"\<close> the count is the text \<^verbatim>\<open>023\<close>.
\<close>

lemma bits_at_the_limit:
  "bit_length 9007199254740992 = 54" "bit_length 9007199254740993 = 54"
  by (simp_all add: bit_length.simps)

lemma rounds_at_the_limit:
  "round_nat 9007199254740992 = 9007199254740992"
  "round_nat 9007199254740993 = 9007199254740992"
  by (simp_all add: round_nat_def bits_at_the_limit Let_def)

lemma doubles_at_the_limit:
  "to_double 9007199254740992 = JNum 9007199254740992"
  "to_double 9007199254740993 = JNum 9007199254740992"
  by (simp_all add: to_double_def rounds_at_the_limit Let_def)

theorem items_count_counterexample:
  "js_get payload_large ''type'' = Inr (JStr ''shipment_sent'')
   \<and> field_of (field_of payload_large ''data'') ''shipment_items'' = JArr large_items
   \<and> map quantity_of large_items = [Some 9007199254740992, Some 1]
   \<and> sum_list (map counted_quantity large_items) = 9007199254740993
   \<and> shipment_fields (sample_env always_ok store_up) payload_large
       = Inr \<lparr>customerEmail = JStr ''ann@example.com'', customerName = JUndef,
              orderNumber = JNum 7, trackingNumber = JUndef, trackingUrl = JUndef,
              carrier = JUndef, items_shipped = ''9007199254740992x Item, 1x Item'',
              items_count = JNum 9007199254740992\<rparr>
   \<and> js_get payload_texts ''type'' = Inr (JStr ''shipment_sent'')
   \<and> field_of (field_of payload_texts ''data'') ''shipment_items'' = JArr text_items
   \<and> shipment_fields (sample_env always_ok store_up) payload_texts
       = Inr \<lparr>customerEmail = JStr ''ann@example.com'', customerName = JUndef,
              orderNumber = JNum 7, trackingNumber = JUndef, trackingUrl = JUndef,
              carrier = JUndef, items_shipped = ''2x Item, 3x Item'',
              items_count = JStr ''023''\<rparr>"
proof -
  let ?E = "sample_env always_ok store_up"
  have t: "js_get payload_large ''type'' = Inr (JStr ''shipment_sent'')"
    "js_get payload_texts ''type'' = Inr (JStr ''shipment_sent'')"
    by (simp_all add: payload_large_def payload_texts_def)
  have i: "field_of (field_of payload_large ''data'') ''shipment_items'' = JArr large_items"
    "field_of (field_of payload_texts ''data'') ''shipment_items'' = JArr text_items"
    by (simp_all add: payload_large_def payload_texts_def field_of_def)
  have q: "map quantity_of large_items = [Some 9007199254740992, Some 1]"
    by (simp add: large_items_def quantity_of_def)
  have n: "sum_list (map counted_quantity large_items) = 9007199254740993"
    by (simp add: large_items_def counted_quantity_def quantity_of_def)
  have printed: "number_text ?E 9007199254740992 = ''9007199254740992''"
    by (simp add: sample_env_def show_int_def show_nat.simps)
  have one: "show_int 1 = ''1''" "show_int 0 = ''0''"
    by (simp_all add: show_int_def show_nat.simps)
  have l: "shipment_fields ?E payload_large
       = Inr \<lparr>customerEmail = JStr ''ann@example.com'', customerName = JUndef,
              orderNumber = JNum 7, trackingNumber = JUndef, trackingUrl = JUndef,
              carrier = JUndef, items_shipped = ''9007199254740992x Item, 1x Item'',
              items_count = JNum 9007199254740992\<rparr>"
    by (simp add: payload_large_def large_items_def shipment_fields_def ex_bind_def js_or_def
        js_get_opt_def js_array_def itemsList_def item_label_def js_plus_def to_primitive_def
        doubles_at_the_limit number_string_def printed one)
  have x: "shipment_fields ?E payload_texts
       = Inr \<lparr>customerEmail = JStr ''ann@example.com'', customerName = JUndef,
              orderNumber = JNum 7, trackingNumber = JUndef, trackingUrl = JUndef,
              carrier = JUndef, items_shipped = ''2x Item, 3x Item'',
              items_count = JStr ''023''\<rparr>"
    by (simp add: payload_texts_def text_items_def shipment_fields_def ex_bind_def js_or_def
        js_get_opt_def js_array_def itemsList_def item_label_def js_plus_def to_primitive_def
        number_string_def one)
  show ?thesis
    using t i q n l x by simp
qed

section \<open>Properties of the polling job\<close>

subsection \<open>One order of the loop\<close>

lemma store_read_error:
  "blob_error env (trace w) = Some e \<Longrightarrow> store_read env w key = Inl e"
  by (simp add: store_read_def store_key_def ex_bind_def)

lemma store_read_entry:
  "blob_error env (trace w) = None \<Longrightarrow> js_to_string env key = Inr k \<Longrightarrow>
     store_read env w key = Inr (blobs w k)"
  by (simp add: store_read_def store_key_def ex_bind_def)

lemma store_read_Inr:
  assumes "store_read env w key = Inr v"
  shows "\<exists>k. js_to_string env key = Inr k \<and> blob_error env (trace w) = None \<and> blobs w k = v"
  using assms
  by (auto simp add: store_read_def store_key_def ex_bind_def split: option.splits sum.splits)

lemma store_read_no_text:
  "js_to_string env key = Inl e \<Longrightarrow> \<exists>e'. store_read env w key = Inl e'"
  by (simp add: store_read_def store_key_def ex_bind_def split: option.splits)

lemma log_order_run:
  "js_to_string env v = Inr k \<Longrightarrow> io_bind (log_order env v) f w = f () w"
  by (simp add: log_order_def io_bind_def io_lift_def io_ret_def)

lemma log_order_throws:
  "js_to_string env v = Inl e \<Longrightarrow> io_bind (log_order env v) f w = (Inl e, w)"
  by (simp add: log_order_def io_bind_def io_lift_def)

lemma check_run:
  "checkIfEmailSent env order_id w =
     (Inr (JBool (store_read env w order_id = Inr (Some ''sent''))),
      w\<lparr>trace := trace w @ [BlobGet order_id (store_read env w order_id)]\<rparr>)"
  by (cases "store_read env w order_id")
    (simp_all add: checkIfEmailSent_def store_get_def Let_def)

lemma try_order_run:
  assumes "js_get order ''id'' = Inr order_id"
  shows "try_order (helpers_of env) env pk sk order w =
     (if store_read env w order_id = Inr (Some ''sent'')
      then (Inr Skipped, w\<lparr>trace := trace w @ [BlobGet order_id (Inr (Some ''sent''))]\<rparr>)
      else deliver (helpers_of env) env pk sk order order_id
             (w\<lparr>trace := trace w @ [BlobGet order_id (store_read env w order_id)]\<rparr>))"
proof (cases "store_read env w order_id = Inr (Some ''sent'')")
  case True
  then obtain k where "js_to_string env order_id = Inr k"
    using store_read_Inr by blast
  then show ?thesis
    using assms True
    by (simp add: try_order_def helpers_of_def io_simps io_bind_def [of "checkIfEmailSent env order_id"]
        check_run log_order_run io_ret_def)
next
  case False
  then show ?thesis
    using assms
    by (simp add: try_order_def helpers_of_def io_simps io_bind_def [of "checkIfEmailSent env order_id"]
        check_run)
qed

text \<open>
  C1. One order of the loop, with the helper functions of the file. When the store can be
  read and holds \<^verbatim>\<open>sent\<close> for the id of the order, the attempt ends as skipped after the
  read alone: no request is made, so no email is sent, and the loop goes on with the next
  order and unchanged counters. When the read of the store throws, \<^verbatim>\<open>checkIfEmailSent\<close>
  returns \<^verbatim>\<open>false\<close> and the attempt goes on with the delivery, exactly as it does when the
  store is read and does not hold \<^verbatim>\<open>sent\<close>.
\<close>

theorem already_sent_skipped:
  assumes "js_get order ''id'' = Inr order_id"
  shows "(store_read env w order_id = Inr (Some ''sent'') \<longrightarrow>
            try_order (helpers_of env) env pk sk order w
              = (Inr Skipped, w\<lparr>trace := trace w @ [BlobGet order_id (Inr (Some ''sent''))]\<rparr>)
          \<and> process_orders (helpers_of env) env pk sk (order # rest) (emailsSent, errors) w
              = process_orders (helpers_of env) env pk sk rest (emailsSent, errors)
                  (w\<lparr>trace := trace w @ [BlobGet order_id (Inr (Some ''sent''))]\<rparr>))
       \<and> (\<forall>e. store_read env w order_id = Inl e \<longrightarrow>
            checkIfEmailSent env order_id w
              = (Inr (JBool False), w\<lparr>trace := trace w @ [BlobGet order_id (Inl e)]\<rparr>)
          \<and> try_order (helpers_of env) env pk sk order w
              = deliver (helpers_of env) env pk sk order order_id
                  (w\<lparr>trace := trace w @ [BlobGet order_id (Inl e)]\<rparr>))
       \<and> (\<forall>v. store_read env w order_id = Inr v \<and> v \<noteq> Some ''sent'' \<longrightarrow>
            try_order (helpers_of env) env pk sk order w
              = deliver (helpers_of env) env pk sk order order_id
                  (w\<lparr>trace := trace w @ [BlobGet order_id (Inr v)]\<rparr>))"
  by (simp add: try_order_run [OF assms] check_run)

lemma info_run:
  assumes "js_to_string env order_id = Inr key"
  obtains info where
    "getShipmentInfo env pk order_id w
       = (Inr info, w\<lparr>trace := trace w @ [Fetch (shipment_request key)
                                           (net env (trace w) (shipment_request key))]\<rparr>)"
proof -
  have "\<exists>info. getShipmentInfo env pk order_id w
       = (Inr info, w\<lparr>trace := trace w @ [Fetch (shipment_request key)
                                           (net env (trace w) (shipment_request key))]\<rparr>)"
    using assms
    by (simp add: getShipmentInfo_def shipment_info_try_def fetch_bind lift_bind io_ret_def
        io_lift_def split: sum.splits)
  then show ?thesis
    using that by blast
qed

lemma info_no_text:
  assumes "js_to_string env order_id = Inl e"
  shows "getShipmentInfo env pk order_id w = (Inr JNull, w)"
  using assms by (simp add: getShipmentInfo_def shipment_info_try_def lift_bind)

lemma send_try_world:
  "snd (send_try env payload w)
     = w\<lparr>trace := trace w @ [Fetch (send_request payload)
                               (net env (trace w) (send_request payload))]\<rparr>"
  by (simp add: send_try_def fetch_bind lift_bind io_ret_def split: sum.splits)

lemma send_try_result:
  "(case fst (send_try env payload w) of
      Inl e \<Rightarrow> \<not> send_reported (net env (trace w) (send_request payload))
    | Inr res \<Rightarrow>
        js_get res ''success''
          = Inr (JBool (send_reported (net env (trace w) (send_request payload)))))"
  by (simp add: send_try_def fetch_bind lift_bind io_ret_def send_reported_def
      split: sum.splits)

lemma send_run:
  assumes "email_payload env info = Inr payload"
  obtains res where
    "sendShipmentEmail env sk order info w
       = (Inr res, w\<lparr>trace := trace w @ [Fetch (send_request payload)
                                          (net env (trace w) (send_request payload))]\<rparr>)"
    and "js_get res ''success''
           = Inr (JBool (send_reported (net env (trace w) (send_request payload))))"
proof -
  obtain x w1 where x: "send_try env payload w = (x, w1)"
    by (cases "send_try env payload w")
  have w1: "w1 = w\<lparr>trace := trace w @ [Fetch (send_request payload)
                                          (net env (trace w) (send_request payload))]\<rparr>"
    using send_try_world [where env = env and payload = payload and w = w] x by simp
  show ?thesis
  proof (cases x)
    case (Inl e)
    then have "\<not> send_reported (net env (trace w) (send_request payload))"
      using send_try_result [where env = env and payload = payload and w = w] x by simp
    then show ?thesis
      using that [of "JObj [(''success'', JBool False), (''error'', JStr (exn_message e))]"]
        assms x w1 Inl
      by (simp add: sendShipmentEmail_def io_simps)
  next
    case (Inr res)
    then have "js_get res ''success''
          = Inr (JBool (send_reported (net env (trace w) (send_request payload))))"
      using send_try_result [where env = env and payload = payload and w = w] x by simp
    then show ?thesis
      using that [of res] assms x w1 Inr
      by (simp add: sendShipmentEmail_def io_simps)
  qed
qed

lemma send_throws:
  "email_payload env info = Inl e \<Longrightarrow> sendShipmentEmail env sk order info w = (Inl e, w)"
  by (simp add: sendShipmentEmail_def io_simps)

lemma mark_run:
  "markEmailAsSent env order_id w =
     (Inr JUndef,
      (case store_key env w order_id of
         Inl e \<Rightarrow> w\<lparr>trace := trace w @ [BlobSet order_id ''sent'' (Inl e)]\<rparr>
       | Inr k \<Rightarrow> w\<lparr>blobs := (blobs w)(k \<mapsto> ''sent''),
                   trace := trace w @ [BlobSet order_id ''sent'' (Inr ())]\<rparr>))"
  by (simp add: markEmailAsSent_def store_set_def split: sum.splits)

lemma request_kinds:
  "shipment_request k \<noteq> send_request p" "send_request p \<noteq> shipment_request k"
  by (simp_all add: shipment_request_def send_request_def)

text \<open>
  C9. One order of the loop, with the helper functions of the file; \<open>new\<close> is what the
  attempt adds to the trace. Unless the attempt ends after a successful send, the store is
  left as it was and no write to it is attempted. When it does, the attempt made exactly
  four calls: the read of the flag, the request for the shipment, the send request, which
  was answered with a success, and after it the write of \<^verbatim>\<open>sent\<close> under the id of the
  order. A send request that fails or throws makes the attempt end as a failed send, hence
  without a write.
\<close>

theorem flag_only_after_send:
  assumes "try_order (helpers_of env) env pk sk order w = (r, w')"
  shows "\<exists>new. trace w' = trace w @ new
     \<and> (r \<noteq> Inr EmailSent \<longrightarrow> blobs w' = blobs w \<and> (\<forall>k v x. BlobSet k v x \<notin> set new))
     \<and> (r = Inr EmailSent \<longrightarrow>
          (\<exists>order_id key g i payload response outcome.
              js_get order ''id'' = Inr order_id
            \<and> js_to_string env order_id = Inr key
            \<and> new = [BlobGet order_id g, Fetch (shipment_request key) i,
                     Fetch (send_request payload) (Inr response),
                     BlobSet order_id ''sent'' outcome]
            \<and> resp_ok response
            \<and> blobs w' = (case outcome of
                            Inl e \<Rightarrow> blobs w
                          | Inr u \<Rightarrow> (blobs w)(key \<mapsto> ''sent''))))
     \<and> (\<forall>payload x. Fetch (send_request payload) x \<in> set new \<and> \<not> send_reported x \<longrightarrow>
          r = Inr EmailFailed)"
proof (cases "js_get order ''id''")
  case (Inl e)
  then have "r = Inl e" "w' = w"
    using assms by (simp_all add: try_order_def io_simps)
  then show ?thesis
    by simp
next
  case (Inr order_id)
  let ?g = "store_read env w order_id"
  let ?w0 = "w\<lparr>trace := trace w @ [BlobGet order_id ?g]\<rparr>"
  show ?thesis
  proof (cases "?g = Inr (Some ''sent'')")
    case True
    then have "r = Inr Skipped" "w' = w\<lparr>trace := trace w @ [BlobGet order_id (Inr (Some ''sent''))]\<rparr>"
      using assms try_order_run [OF Inr, of env pk sk w] by simp_all
    then show ?thesis
      by simp
  next
    case False
    then have d: "deliver (helpers_of env) env pk sk order order_id ?w0 = (r, w')"
      using assms try_order_run [OF Inr, of env pk sk w] by (auto split: if_splits)
    show ?thesis
    proof (cases "js_to_string env order_id")
      case no_text: (Inl e)
      have "r = Inl e" "w' = ?w0"
        using d info_no_text [OF no_text, of pk ?w0]
        by (simp_all add: deliver_def helpers_of_def log_order_throws [OF no_text]
            io_bind_def [of "getShipmentInfo env pk order_id"])
      then show ?thesis
        by simp
    next
      case key: (Inr key)
      note log = log_order_run [OF key]
      let ?i = "net env (trace ?w0) (shipment_request key)"
      let ?w1 = "?w0\<lparr>trace := trace ?w0 @ [Fetch (shipment_request key) ?i]\<rparr>"
      obtain info where info: "getShipmentInfo env pk order_id ?w0 = (Inr info, ?w1)"
        using info_run [OF key] by blast
      show ?thesis
      proof (cases "truthy info")
        case False
        then have "r = Inr NoShipmentInfo" "w' = ?w1"
          using d info
          by (simp_all add: deliver_def helpers_of_def log io_ret_def
              io_bind_def [of "getShipmentInfo env pk order_id"])
        then show ?thesis
          by (simp add: request_kinds)
      next
        case True
        show ?thesis
        proof (cases "email_payload env info")
          case (Inl e)
          then have "r = Inl e" "w' = ?w1"
            using d info True send_throws [OF Inl, of sk order ?w1]
            by (simp_all add: deliver_def helpers_of_def
                io_bind_def [of "getShipmentInfo env pk order_id"]
                io_bind_def [of "sendShipmentEmail env sk order info"])
          then show ?thesis
            by (simp add: request_kinds)
        next
          case (Inr payload)
          let ?x = "net env (trace ?w1) (send_request payload)"
          let ?w2 = "?w1\<lparr>trace := trace ?w1 @ [Fetch (send_request payload) ?x]\<rparr>"
          obtain res where res: "sendShipmentEmail env sk order info ?w1 = (Inr res, ?w2)"
            and success: "js_get res ''success'' = Inr (JBool (send_reported ?x))"
            using send_run [OF Inr, of sk order ?w1] by blast
          show ?thesis
          proof (cases "send_reported ?x")
            case False
            then have "r = Inr EmailFailed" "w' = ?w2"
              using d info True res success
              by (simp_all add: deliver_def helpers_of_def log io_ret_def io_simps
                  io_bind_def [of "getShipmentInfo env pk order_id"]
                  io_bind_def [of "sendShipmentEmail env sk order info"])
            then show ?thesis
              by (simp add: request_kinds)
          next
            case reported: True
            then obtain response where response: "?x = Inr response" "resp_ok response"
              by (auto simp add: send_reported_def split: sum.splits)
            let ?o = "case store_key env ?w2 order_id of Inl e \<Rightarrow> Inl e | Inr k \<Rightarrow> Inr ()"
            have "r = Inr EmailSent"
              and w': "w' = snd (markEmailAsSent env order_id ?w2)"
              using d info True res success reported
              by (simp_all add: deliver_def helpers_of_def log io_ret_def io_simps
                  io_bind_def [of "getShipmentInfo env pk order_id"]
                  io_bind_def [of "sendShipmentEmail env sk order info"]
                  io_bind_def [of "markEmailAsSent env order_id"] mark_run)
            moreover have "trace w' = trace w @ [BlobGet order_id ?g, Fetch (shipment_request key) ?i,
                       Fetch (send_request payload) (Inr response),
                       BlobSet order_id ''sent'' ?o]"
              using w' response by (simp add: mark_run split: sum.splits)
            moreover have "blobs w' = (case ?o of
                              Inl e \<Rightarrow> blobs w
                            | Inr u \<Rightarrow> (blobs w)(key \<mapsto> ''sent''))"
              using w' key by (simp add: mark_run store_key_def split: option.splits)
            ultimately show ?thesis
              using \<open>js_get order ''id'' = Inr order_id\<close> key response reported
              by (auto simp add: request_kinds)
          qed
        qed
      qed
    qed
  qed
qed

subsection \<open>The filter\<close>

lemma keep_order_typed:
  assumes "typed_order env order"
  shows "keep_order env order = Inr (shipped_in_window env order)"
proof -
  obtain v where v: "js_get order ''shipments'' = Inr v"
    using assms by (auto simp add: typed_order_def split: sum.splits)
  then have "order \<noteq> JNull \<and> order \<noteq> JUndef"
    by (rule js_get_Inr_readable)
  then have u: "js_get order ''updated'' = Inr (field_of order ''updated'')"
    by (simp add: field_get)
  show ?thesis
  proof (cases "\<exists>s rest. v = JArr (s # rest)")
    case True
    then obtain s rest where a: "v = JArr (s # rest)"
      by blast
    with assms v have "s \<noteq> JNull" "s \<noteq> JUndef"
      and "\<exists>t. js_date env (shipment_timestamp order s) = Inr t"
      by (auto simp add: typed_order_def split: sum.splits)
    then obtain t where x: "js_get s ''shipped_at'' = Inr (field_of s ''shipped_at'')"
      and t: "js_date env (shipment_timestamp order s) = Inr t"
      by (auto simp add: field_get)
    show ?thesis
    proof (cases "truthy (field_of s ''shipped_at'')")
      case True
      then have "shipment_timestamp order s = field_of s ''shipped_at''"
        by (simp add: shipment_timestamp_def js_or_def)
      then show ?thesis
        using v a x u t True
        by (simp add: keep_order_def shipped_in_window_def first_shipment_def
            ex_bind_def twentyFourHoursAgo_def split: option.splits)
    next
      case False
      then have "shipment_timestamp order s = field_of order ''updated''"
        by (simp add: shipment_timestamp_def js_or_def)
      then show ?thesis
        using v a x u t False
        by (simp add: keep_order_def shipped_in_window_def first_shipment_def
            ex_bind_def twentyFourHoursAgo_def split: option.splits)
    qed
  next
    case False
    with assms v show ?thesis
      by (cases v)
        (auto simp add: keep_order_def shipped_in_window_def first_shipment_def
          typed_order_def ex_bind_def split: list.splits)
  qed
qed

lemma ex_filter_total:
  "list_all (\<lambda>x. p x = Inr (q x)) xs \<Longrightarrow> ex_filter p xs = Inr (filter q xs)"
  by (induction xs) (simp_all add: ex_bind_def)

lemma ex_filter_throws:
  "p x = Inl e \<Longrightarrow> x \<in> set xs \<Longrightarrow> \<exists>e'. ex_filter p xs = Inl e'"
  by (induction xs) (auto simp add: ex_bind_def split: sum.splits)

lemma ex_filter_kept:
  "ex_filter p xs = Inr ys \<Longrightarrow> y \<in> set ys \<Longrightarrow> p y = Inr True"
  by (induction xs arbitrary: ys) (auto simp add: ex_bind_def split: sum.splits if_splits)

lemma fetch_orders_run:
  "fetch_orders_try env w =
     (case net env (trace w) orders_request of
        Inl e \<Rightarrow> (Inl e, w\<lparr>trace := trace w @ [Fetch orders_request (Inl e)]\<rparr>)
      | Inr r \<Rightarrow>
          (if \<not> resp_ok r then Inr []
           else ex_bind (resp_json r) (\<lambda>data.
                ex_bind (js_get data ''result'') (\<lambda>result.
                ex_bind (js_array ''orders.filter'' (js_or result (JArr []))) (\<lambda>orders.
                ex_filter (keep_order env) orders))),
           w\<lparr>trace := trace w @ [Fetch orders_request (Inr r)]\<rparr>))"
  by (simp add: fetch_orders_try_def fetch_bind lift_bind io_ret_def io_lift_def ex_bind_def
      split: sum.splits)

lemma fetch_typed:
  assumes "net env (trace w) orders_request = Inr r" and "resp_ok r"
    and "resp_json r = Inr data" and "js_get data ''result'' = Inr (JArr orders)"
    and "list_all (typed_order env) orders"
  shows "fetchRecentShippedOrders env w
           = (filter (shipped_in_window env) orders,
              w\<lparr>trace := trace w @ [Fetch orders_request (Inr r)]\<rparr>)"
proof -
  have "list_all (\<lambda>x. keep_order env x = Inr (shipped_in_window env x)) orders"
    using assms(5) by (induction orders) (simp_all add: keep_order_typed)
  then have "ex_filter (keep_order env) orders = Inr (filter (shipped_in_window env) orders)"
    by (rule ex_filter_total)
  then show ?thesis
    using assms(1-4)
    by (simp add: fetchRecentShippedOrders_def fetch_orders_run ex_bind_def js_or_def
        js_array_def)
qed

text \<open>
  C2, as amended. The order filter of the polling job. When the provider answers with a
  success and a list of typed orders (each can be read, its \<^verbatim>\<open>shipments\<close> member is
  missing, \<^verbatim>\<open>null\<close> or an array whose first element, if any, is not \<^verbatim>\<open>null\<close> and has a
  timestamp that converts to a time without an exception), the function returns exactly
  the orders of that list, in their order, that have a non-empty shipments array and whose
  first shipment's timestamp (\<^verbatim>\<open>shipped_at\<close>, else the order's \<^verbatim>\<open>updated\<close>) is strictly
  later than 24 hours before now. It returns the empty list when the provider answers with
  an error status, and whenever an exception is thrown: by the request, by reading the
  body, or by the callback of the filter on some order.
\<close>

theorem recent_orders:
  fixes env w
  defines "answer \<equiv> net env (trace w) orders_request"
  defines "found \<equiv> fst (fetchRecentShippedOrders env w)"
  shows "(\<forall>e w'. fetch_orders_try env w = (Inl e, w') \<longrightarrow> fetchRecentShippedOrders env w = ([], w'))
     \<and> (\<forall>e. answer = Inl e \<longrightarrow> found = [])
     \<and> (\<forall>r. answer = Inr r \<and> \<not> resp_ok r \<longrightarrow> found = [])
     \<and> (\<forall>r e. answer = Inr r \<and> resp_json r = Inl e \<longrightarrow> found = [])
     \<and> (\<forall>r data orders.
           answer = Inr r \<and> resp_ok r \<and> resp_json r = Inr data
           \<and> js_get data ''result'' = Inr (JArr orders) \<longrightarrow>
             ((\<exists>order \<in> set orders. \<exists>e. keep_order env order = Inl e) \<longrightarrow> found = [])
           \<and> (list_all (typed_order env) orders \<longrightarrow>
                found = filter (shipped_in_window env) orders))"
proof -
  have typed: "found = filter (shipped_in_window env) orders"
    if "answer = Inr r" "resp_ok r" "resp_json r = Inr data"
      "js_get data ''result'' = Inr (JArr orders)" "list_all (typed_order env) orders"
    for r data orders
    using that fetch_typed [of env w r data orders] unfolding found_def answer_def
    by simp
  have throws: "found = []"
    if h: "answer = Inr r" "resp_ok r" "resp_json r = Inr data"
      "js_get data ''result'' = Inr (JArr orders)" "order \<in> set orders"
      "keep_order env order = Inl e"
    for r data orders order e
  proof -
    obtain e' where "ex_filter (keep_order env) orders = Inl e'"
      using ex_filter_throws [of "keep_order env" order e orders] h(5,6) by blast
    then show ?thesis
      using h(1-4) unfolding found_def answer_def
      by (simp add: fetchRecentShippedOrders_def fetch_orders_run ex_bind_def js_or_def
          js_array_def)
  qed
  have rest: "(\<forall>e w'. fetch_orders_try env w = (Inl e, w') \<longrightarrow> fetchRecentShippedOrders env w = ([], w'))
     \<and> (\<forall>e. answer = Inl e \<longrightarrow> found = [])
     \<and> (\<forall>r. answer = Inr r \<and> \<not> resp_ok r \<longrightarrow> found = [])
     \<and> (\<forall>r e. answer = Inr r \<and> resp_json r = Inl e \<longrightarrow> found = [])"
    unfolding found_def answer_def
    by (auto simp add: fetchRecentShippedOrders_def fetch_orders_run ex_bind_def)
  show ?thesis
    using rest typed throws by blast
qed

subsection \<open>The counters of a run\<close>

lemma keep_order_readable:
  assumes "keep_order env order = Inr b"
  shows "\<exists>v. js_get order ''id'' = Inr v"
proof -
  obtain s where "js_get order ''shipments'' = Inr s"
    using assms by (auto simp add: keep_order_def ex_bind_def split: sum.splits)
  then have "order \<noteq> JNull \<and> order \<noteq> JUndef"
    by (rule js_get_Inr_readable)
  then show ?thesis
    using js_get_total by blast
qed

lemma fetched_orders_readable:
  assumes "fetchRecentShippedOrders env w = (orders, w1)" and "order \<in> set orders"
  shows "\<exists>v. js_get order ''id'' = Inr v"
proof -
  have "orders = [] \<or> (\<exists>xs. ex_filter (keep_order env) xs = Inr orders)"
    using assms(1)
    by (auto simp add: fetchRecentShippedOrders_def fetch_orders_run ex_bind_def
        split: sum.splits if_splits)
  with assms(2) obtain xs where "ex_filter (keep_order env) xs = Inr orders"
    by auto
  then have "keep_order env order = Inr True"
    using assms(2) by (rule ex_filter_kept)
  then show ?thesis
    by (rule keep_order_readable)
qed

lemma catch_logs:
  assumes "js_get order ''id'' = Inr v" and "id_has_text env order"
  shows "io_bind (io_lift (js_get order ''id'')) (log_order env) w = (Inr (), w)"
proof -
  obtain k where "js_to_string env v = Inr k"
    using assms js_get_field [OF assms(1)] by (auto simp add: id_has_text_def has_text_iff)
  then show ?thesis
    using assms(1) by (simp add: io_simps log_order_def io_ret_def)
qed

lemma process_orders_counts:
  assumes "\<forall>order \<in> set orders. (\<exists>v. js_get order ''id'' = Inr v) \<and> id_has_text env order"
    and "attempts H env pk sk orders w = (rs, w')"
  shows "process_orders H env pk sk orders (a, b) w
           = (Inr (a + sent_count rs, b + error_count rs), w')"
  using assms
proof (induction orders arbitrary: a b w rs)
  case Nil
  then show ?case
    by (simp add: sent_count_def error_count_def)
next
  case (Cons order rest)
  obtain r w1 where r: "try_order H env pk sk order w = (r, w1)"
    by (cases "try_order H env pk sk order w")
  obtain rs' where rs': "attempts H env pk sk rest w1 = (rs', w')" and rs: "rs = r # rs'"
    using Cons.prems(2) r by (auto split: prod.splits)
  obtain v where v: "js_get order ''id'' = Inr v" and t: "id_has_text env order"
    using Cons.prems(1) by auto
  have rest: "\<forall>order \<in> set rest. (\<exists>v. js_get order ''id'' = Inr v) \<and> id_has_text env order"
    using Cons.prems(1) by simp
  note IH = Cons.IH [OF rest rs']
  show ?case
  proof (cases r)
    case (Inl e)
    then show ?thesis
      using r rs IH [of a "b + 1"] catch_logs [OF v t, of w1]
      by (simp add: sent_count_def error_count_def)
  next
    case (Inr res)
    then show ?thesis
      using r rs IH [of "a + 1" b] IH [of a "b + 1"] IH [of a b]
      by (cases res) (simp_all add: sent_count_def error_count_def)
  qed
qed

lemma attempts_length:
  "attempts H env pk sk orders w = (rs, w') \<Longrightarrow> length rs = length orders"
  by (induction orders arbitrary: w rs) (auto split: prod.splits)

text \<open>
  C3, as amended. A run of the polling job with both API keys set, over any four helper
  functions, which may throw, in which the id of every fetched order has a text. Let the
  fetched list be \<open>orders\<close> and let \<open>rs\<close> be the attempts on these orders. Every order is
  attempted, whatever the attempts before it gave: \<open>rs\<close> is as long as \<open>orders\<close>. The
  handler answers 200 with \<^verbatim>\<open>ordersFound\<close> the length of the list, \<^verbatim>\<open>emailsSent\<close> the
  number of attempts that ended after a successful send, and \<^verbatim>\<open>errors\<close> the number of
  attempts whose send was reported as failed or that threw an exception.
\<close>

theorem run_counts:
  assumes "getenv env ''PRINTFUL_API_KEY'' = Some pk" and "pk \<noteq> []"
    and "getenv env ''SENDER_API_KEY'' = Some sk" and "sk \<noteq> []"
    and "fetchRecentShippedOrders env w = (orders, w1)"
    and "list_all (id_has_text env) orders"
    and "attempts H env (JStr pk) (JStr sk) orders w1 = (rs, w2)"
  shows "handler_with H env w =
           (Reply 200 (JObj [(''message'', JStr ''Check completed''),
                             (''ordersFound'', JNum (int (length orders))),
                             (''emailsSent'', JNum (int (sent_count rs))),
                             (''errors'', JNum (int (error_count rs)))]), w2)
       \<and> length rs = length orders"
proof -
  have "\<forall>order \<in> set orders. (\<exists>v. js_get order ''id'' = Inr v) \<and> id_has_text env order"
    using fetched_orders_readable [OF assms(5)] assms(6) by (auto simp add: list_all_iff)
  then have "process_orders H env (JStr pk) (JStr sk) orders (0, 0) w1
               = (Inr (0 + sent_count rs, 0 + error_count rs), w2)"
    using assms(7) by (rule process_orders_counts)
  then show ?thesis
    using assms(1-5) attempts_length [OF assms(7)]
    by (simp add: handler_with_def env_val_def check_completed_def)
qed

section \<open>Runs of the polling job on the sample inputs\<close>

lemmas shop_defs =
  sample_env_def sample_getenv_def env_val_def shop_net_def orders_request_def
  shipment_request_def send_request_def mail_to_def detail_response_def orders_response_def
  ok_response_def refused_def not_found_def store_up_def store_down_def

lemma typed_listed: "list_all (typed_order (sample_env answer failure)) listed_orders"
  by (simp add: listed_orders_def order7_def order8_def order9_def order10_def order11_def
      typed_order_def shipment_timestamp_def field_of_def js_or_def js_date_def
      to_primitive_def ex_bind_def)

lemma window_listed:
  "map (shipped_in_window (sample_env shop_net store_up)) listed_orders
     = [True, False, True, True, False]"
  by (simp add: listed_orders_def order7_def order8_def order9_def order10_def order11_def
      shipped_in_window_def first_shipment_def shipment_timestamp_def field_of_def js_or_def
      js_date_def to_primitive_def ex_bind_def sample_env_def)

lemma kept_listed:
  "filter (shipped_in_window (sample_env shop_net store_up)) listed_orders
     = [order7, order9, order10]"
  by (simp add: listed_orders_def order7_def order8_def order9_def order10_def order11_def
      shipped_in_window_def first_shipment_def shipment_timestamp_def field_of_def js_or_def
      js_date_def to_primitive_def ex_bind_def sample_env_def)

theorem recent_orders_witness:
  "net (sample_env shop_net store_up) (trace empty_world) orders_request = Inr orders_response
   \<and> resp_ok orders_response
   \<and> resp_json orders_response = Inr (JObj [(''result'', JArr listed_orders)])
   \<and> list_all (typed_order (sample_env shop_net store_up)) listed_orders
   \<and> map (shipped_in_window (sample_env shop_net store_up)) listed_orders
        = [True, False, True, True, False]
   \<and> fst (fetchRecentShippedOrders (sample_env shop_net store_up) empty_world)
        = [order7, order9, order10]"
proof -
  let ?E = "sample_env shop_net store_up"
  have a: "net ?E (trace empty_world) orders_request = Inr orders_response"
    by (simp add: sample_env_def shop_net_def)
  have k: "resp_ok orders_response"
    by (simp add: orders_response_def resp_ok_def)
  have j: "resp_json orders_response = Inr (JObj [(''result'', JArr listed_orders)])"
    by (simp add: orders_response_def)
  have r: "js_get (JObj [(''result'', JArr listed_orders)]) ''result'' = Inr (JArr listed_orders)"
    by simp
  have t: "list_all (typed_order ?E) listed_orders"
    by (rule typed_listed)
  have "fst (fetchRecentShippedOrders ?E empty_world) = filter (shipped_in_window ?E) listed_orders"
    using recent_orders [of ?E empty_world] a k j r t by blast
  then show ?thesis
    using a k j t window_listed kept_listed by simp
qed

text \<open>
  The claim as stated fails at an order whose \<^verbatim>\<open>shipments\<close> member is a text: the order
  has no shipments array, yet the filter keeps it, because a text has a length and a first
  element, and the \<^verbatim>\<open>updated\<close> member of the order is recent.
\<close>

theorem text_shipments_counterexample:
  "net (sample_env text_net store_up) (trace empty_world) orders_request
     = Inr (Response 200 (Inr []) (Inr (JObj [(''result'', JArr [order12])])))
   \<and> js_get order12 ''shipments'' = Inr (JStr ''x'')
   \<and> first_shipment order12 = None
   \<and> \<not> shipped_in_window (sample_env text_net store_up) order12
   \<and> fst (fetchRecentShippedOrders (sample_env text_net store_up) empty_world) = [order12]"
  by (simp add: sample_env_def text_net_def order12_def first_shipment_def
      shipped_in_window_def fetchRecentShippedOrders_def fetch_orders_run resp_ok_def
      ex_bind_def js_or_def js_array_def keep_order_def js_date_def to_primitive_def
      twentyFourHoursAgo_def empty_world_def)

lemmas run_defs =
  try_order_def deliver_def helpers_of_def checkIfEmailSent_def store_get_def store_read_def
  store_key_def getShipmentInfo_def shipment_info_try_def shipment_info_of_def
  shipment_request_def item_summary_def sendShipmentEmail_def send_try_def email_payload_def
  item_html_def template_def log_order_def markEmailAsSent_def store_set_def js_array_def
  js_or_def resp_ok_def fetch_def io_ret_def io_lift_def io_bind_def io_throw_def ex_bind_def
  number_string_def show_int_def show_nat.simps Let_def

lemma run_order7:
  assumes "blobs w ''7'' = None"
  shows "try_order (helpers_of (sample_env shop_net store_up)) (sample_env shop_net store_up)
           (JStr ''pk'') (JStr ''sk'') order7 w
           = (Inr EmailSent,
              w\<lparr>blobs := (blobs w)(''7'' \<mapsto> ''sent''), trace := trace w @ events7\<rparr>)"
  using assms by (simp add: order7_def events7_def run_defs shop_defs)

lemma run_order10:
  assumes "blobs w ''10'' = None"
  shows "try_order (helpers_of (sample_env shop_net store_up)) (sample_env shop_net store_up)
           (JStr ''pk'') (JStr ''sk'') order10 w
           = (Inr EmailFailed, w\<lparr>trace := trace w @ events10\<rparr>)"
  using assms by (simp add: order10_def events10_def run_defs shop_defs)

lemma run_flaky7:
  assumes "blobs w ''7'' = None"
  shows "try_order (flaky (sample_env shop_net store_up)) (sample_env shop_net store_up)
           (JStr ''pk'') (JStr ''sk'') order7 w
           = (Inr EmailSent,
              w\<lparr>blobs := (blobs w)(''7'' \<mapsto> ''sent''), trace := trace w @ events7\<rparr>)"
  using assms by (simp add: flaky_def order7_def events7_def run_defs shop_defs)

lemma run_flaky9:
  assumes "blobs w ''9'' = None"
  shows "try_order (flaky (sample_env shop_net store_up)) (sample_env shop_net store_up)
           (JStr ''pk'') (JStr ''sk'') order9 w
           = (Inl (Error ''boom''), w\<lparr>trace := trace w @ [BlobGet (JNum 9) (Inr None)]\<rparr>)"
  using assms by (simp add: flaky_def order9_def run_defs shop_defs)

lemma run_flaky10:
  assumes "blobs w ''10'' = None"
  shows "try_order (flaky (sample_env shop_net store_up)) (sample_env shop_net store_up)
           (JStr ''pk'') (JStr ''sk'') order10 w
           = (Inr EmailFailed, w\<lparr>trace := trace w @ events10\<rparr>)"
  using assms by (simp add: flaky_def order10_def events10_def run_defs shop_defs)

theorem run_counts_witness:
  "getenv (sample_env shop_net store_up) ''PRINTFUL_API_KEY'' = Some ''pk''
   \<and> getenv (sample_env shop_net store_up) ''SENDER_API_KEY'' = Some ''sk''
   \<and> fetchRecentShippedOrders (sample_env shop_net store_up) empty_world
        = ([order7, order9, order10], world_fetched)
   \<and> list_all (id_has_text (sample_env shop_net store_up)) [order7, order9, order10]
   \<and> attempts (flaky (sample_env shop_net store_up)) (sample_env shop_net store_up)
        (JStr ''pk'') (JStr ''sk'') [order7, order9, order10] world_fetched
        = ([Inr EmailSent, Inl (Error ''boom''), Inr EmailFailed], world_done)
   \<and> handler_with (flaky (sample_env shop_net store_up)) (sample_env shop_net store_up) empty_world
        = (Reply 200 (JObj [(''message'', JStr ''Check completed''),
                            (''ordersFound'', JNum 3),
                            (''emailsSent'', JNum 1),
                            (''errors'', JNum 2)]), world_done)"
proof -
  let ?E = "sample_env shop_net store_up"
  have p: "getenv ?E ''PRINTFUL_API_KEY'' = Some ''pk''" "''pk'' \<noteq> []"
    and s: "getenv ?E ''SENDER_API_KEY'' = Some ''sk''" "''sk'' \<noteq> []"
    by (simp_all add: sample_env_def sample_getenv_def)
  have a: "net ?E (trace empty_world) orders_request = Inr orders_response"
    by (simp add: sample_env_def shop_net_def)
  have k: "resp_ok orders_response"
    by (simp add: orders_response_def resp_ok_def)
  have j: "resp_json orders_response = Inr (JObj [(''result'', JArr listed_orders)])"
    by (simp add: orders_response_def)
  have r: "js_get (JObj [(''result'', JArr listed_orders)]) ''result'' = Inr (JArr listed_orders)"
    by simp
  have f: "fetchRecentShippedOrders ?E empty_world = ([order7, order9, order10], world_fetched)"
    using fetch_typed [OF a k j r typed_listed]
    by (simp add: kept_listed world_fetched_def empty_world_def)
  have i: "list_all (id_has_text ?E) [order7, order9, order10]"
    by (simp add: id_has_text_def has_text_def field_of_def order7_def order9_def order10_def)
  have t: "attempts (flaky ?E) ?E (JStr ''pk'') (JStr ''sk'') [order7, order9, order10] world_fetched
             = ([Inr EmailSent, Inl (Error ''boom''), Inr EmailFailed], world_done)"
    by (simp add: run_flaky7 run_flaky9 run_flaky10 world_fetched_def world_done_def)
  have c: "sent_count [Inr EmailSent, Inl (Error ''boom''), Inr EmailFailed] = 1"
    "error_count [Inr EmailSent, Inl (Error ''boom''), Inr EmailFailed] = 2"
    by (simp_all add: sent_count_def error_count_def)
  show ?thesis
    using p(1) s(1) f i t run_counts [OF p s f i t] by (simp add: c)
qed

text \<open>
  The claim as stated fails at a fetched order whose id has no text, here an object with a
  member \<^verbatim>\<open>toString\<close>. The read of the store throws and counts as not sent, no shipment
  is requested for an id without a text, and the line of the log that reports the missing
  shipment throws. The \<^verbatim>\<open>catch\<close> of the loop logs a line that names the order and throws
  again, so that the exception leaves the loop: the handler answers 500 and the order that
  follows is not attempted.
\<close>

lemma odd_attempt:
  "try_order (helpers_of (sample_env odd_net store_up)) (sample_env odd_net store_up)
     (JStr ''pk'') (JStr ''sk'') order13 w
     = (Inl not_primitive, w\<lparr>trace := trace w @ [BlobGet odd_id (Inl not_primitive)]\<rparr>)"
  by (simp add: order13_def odd_id_def run_defs sample_env_def store_up_def)

theorem odd_id_counterexample:
  "getenv (sample_env odd_net store_up) ''PRINTFUL_API_KEY'' = Some ''pk''
   \<and> getenv (sample_env odd_net store_up) ''SENDER_API_KEY'' = Some ''sk''
   \<and> fetchRecentShippedOrders (sample_env odd_net store_up) empty_world
        = ([order13, order7],
           \<lparr>blobs = Map.empty, trace = [Fetch orders_request (Inr odd_response)]\<rparr>)
   \<and> handler (sample_env odd_net store_up) empty_world
        = (Reply 500 (JObj [(''error'', JStr ''Internal error''),
                            (''message'', JStr ''Cannot convert object to primitive value'')]),
           \<lparr>blobs = Map.empty,
            trace = [Fetch orders_request (Inr odd_response),
                     BlobGet odd_id (Inl not_primitive)]\<rparr>)"
proof -
  let ?E = "sample_env odd_net store_up"
  have p: "getenv ?E ''PRINTFUL_API_KEY'' = Some ''pk''"
    and s: "getenv ?E ''SENDER_API_KEY'' = Some ''sk''"
    by (simp_all add: sample_env_def sample_getenv_def)
  have a: "net ?E (trace empty_world) orders_request = Inr odd_response"
    by (simp add: sample_env_def odd_net_def)
  have k: "resp_ok odd_response"
    by (simp add: odd_response_def resp_ok_def)
  have j: "resp_json odd_response = Inr (JObj [(''result'', JArr [order13, order7])])"
    by (simp add: odd_response_def)
  have r: "js_get (JObj [(''result'', JArr [order13, order7])]) ''result''
             = Inr (JArr [order13, order7])"
    by simp
  have t: "list_all (typed_order ?E) [order13, order7]"
    by (simp add: order13_def order7_def typed_order_def shipment_timestamp_def field_of_def
        js_or_def js_date_def to_primitive_def ex_bind_def)
  have i: "filter (shipped_in_window ?E) [order13, order7] = [order13, order7]"
    by (simp add: order13_def order7_def shipped_in_window_def first_shipment_def
        shipment_timestamp_def field_of_def js_or_def js_date_def to_primitive_def ex_bind_def
        sample_env_def)
  have f: "fetchRecentShippedOrders ?E empty_world
        = ([order13, order7],
           \<lparr>blobs = Map.empty, trace = [Fetch orders_request (Inr odd_response)]\<rparr>)"
    unfolding fetch_typed [OF a k j r t] i by (simp add: empty_world_def)
  have c: "io_bind (io_lift (js_get order13 ''id'')) (log_order ?E) w = (Inl not_primitive, w)"
    for w
    by (simp add: order13_def odd_id_def io_simps log_order_def)
  have h: "handler ?E empty_world
        = (Reply 500 (JObj [(''error'', JStr ''Internal error''),
                            (''message'', JStr ''Cannot convert object to primitive value'')]),
           \<lparr>blobs = Map.empty,
            trace = [Fetch orders_request (Inr odd_response),
                     BlobGet odd_id (Inl not_primitive)]\<rparr>)"
    using p s
    by (simp add: handler_def handler_with_def env_val_def f odd_attempt c internal_error_def
        not_primitive_def)
  show ?thesis
    using p s f h by simp
qed

theorem already_sent_skipped_witness:
  "js_get order7 ''id'' = Inr (JNum 7)
   \<and> store_read (sample_env shop_net store_up) marked (JNum 7) = Inr (Some ''sent'')
   \<and> try_order (helpers_of (sample_env shop_net store_up)) (sample_env shop_net store_up)
        (JStr ''pk'') (JStr ''sk'') order7 marked
        = (Inr Skipped, marked\<lparr>trace := [BlobGet (JNum 7) (Inr (Some ''sent''))]\<rparr>)
   \<and> blob_error (sample_env shop_net store_down) (trace marked)
        = Some (Error ''blob store unavailable'')
   \<and> store_read (sample_env shop_net store_down) marked (JNum 7)
        = Inl (Error ''blob store unavailable'')
   \<and> checkIfEmailSent (sample_env shop_net store_down) (JNum 7) marked
        = (Inr (JBool False),
           marked\<lparr>trace := [BlobGet (JNum 7) (Inl (Error ''blob store unavailable''))]\<rparr>)
   \<and> try_order (helpers_of (sample_env shop_net store_down)) (sample_env shop_net store_down)
        (JStr ''pk'') (JStr ''sk'') order7 marked
        = deliver (helpers_of (sample_env shop_net store_down)) (sample_env shop_net store_down)
            (JStr ''pk'') (JStr ''sk'') order7 (JNum 7)
            (marked\<lparr>trace := [BlobGet (JNum 7) (Inl (Error ''blob store unavailable''))]\<rparr>)
   \<and> fst (try_order (helpers_of (sample_env shop_net store_down)) (sample_env shop_net store_down)
             (JStr ''pk'') (JStr ''sk'') order7 marked) = Inr EmailSent"
proof -
  have i: "js_get order7 ''id'' = Inr (JNum 7)"
    by (simp add: order7_def)
  have u: "store_read (sample_env shop_net store_up) marked (JNum 7) = Inr (Some ''sent'')"
    by (simp add: store_read_def store_key_def ex_bind_def sample_env_def store_up_def
        marked_def number_string_def show_int_def show_nat.simps)
  have b: "blob_error (sample_env shop_net store_down) (trace marked)
             = Some (Error ''blob store unavailable'')"
    by (simp add: sample_env_def store_down_def)
  have d: "store_read (sample_env shop_net store_down) marked (JNum 7)
             = Inl (Error ''blob store unavailable'')"
    using b by (rule store_read_error)
  have t: "trace marked = []"
    by (simp add: marked_def)
  have e: "fst (try_order (helpers_of (sample_env shop_net store_down))
             (sample_env shop_net store_down) (JStr ''pk'') (JStr ''sk'')
             order7 marked) = Inr EmailSent"
    by (simp add: order7_def marked_def run_defs shop_defs)
  show ?thesis
    using i u b d e
      already_sent_skipped [OF i, of "sample_env shop_net store_up" marked
        "JStr ''pk''" "JStr ''sk''" "[]" 0 0]
      already_sent_skipped [OF i, of "sample_env shop_net store_down" marked
        "JStr ''pk''" "JStr ''sk''" "[]" 0 0]
    by (simp add: t)
qed

theorem flag_only_after_send_witness:
  "try_order (helpers_of (sample_env shop_net store_up)) (sample_env shop_net store_up)
     (JStr ''pk'') (JStr ''sk'') order10 empty_world
     = (Inr EmailFailed, empty_world\<lparr>trace := events10\<rparr>)
   \<and> blobs (empty_world\<lparr>trace := events10\<rparr>) = blobs empty_world
   \<and> try_order (helpers_of (sample_env shop_net store_up)) (sample_env shop_net store_up)
     (JStr ''pk'') (JStr ''sk'') order7 empty_world
     = (Inr EmailSent, \<lparr>blobs = [''7'' \<mapsto> ''sent''], trace = events7\<rparr>)"
proof -
  have a: "try_order (helpers_of (sample_env shop_net store_up)) (sample_env shop_net store_up)
     (JStr ''pk'') (JStr ''sk'') order10 empty_world
     = (Inr EmailFailed, empty_world\<lparr>trace := events10\<rparr>)"
    using run_order10 [of empty_world] by (simp add: empty_world_def)
  have b: "try_order (helpers_of (sample_env shop_net store_up)) (sample_env shop_net store_up)
     (JStr ''pk'') (JStr ''sk'') order7 empty_world
     = (Inr EmailSent, \<lparr>blobs = [''7'' \<mapsto> ''sent''], trace = events7\<rparr>)"
    using run_order7 [of empty_world] by (simp add: empty_world_def)
  show ?thesis
    using a b flag_only_after_send [OF a] flag_only_after_send [OF b] by simp
qed

section \<open>The bulk-index endpoint and the body of the request\<close>

text \<open>
  C8. The endpoint makes one outbound call, a POST to the update URL of the search index,
  and answers \<^verbatim>\<open>Indexed\<close> or 500 with the message of the error. But the body of that call
  is \<^verbatim>\<open>undefined\<close> whatever the caller sent: no body parser is installed, so the body of
  the request never reaches \<^verbatim>\<open>req.body\<close>, while the handler takes \<^verbatim>\<open>req.body\<close> to be the
  array of posts. The last conjunct is the call made for a request that carries one post.
\<close>

theorem index_body_dropped:
  "api_index solr raw = index_posts solr JUndef
   \<and> snd (api_index solr raw) = [Request ''POST'' (update_url solr) JUndef]
   \<and> snd (api_index sample_solr body_posts)
       = [Request ''POST'' ''http://solr:8983/solr/posts/update?commit=true'' JUndef]"
  by (simp add: api_index_def installed_parsers_def index_posts_def Let_def update_url_def
      env_text_def sample_solr_def split: sum.splits)


end
